theory Spec2Isabelle
  imports Complex_Main "HOL-Library.Product_Lexorder" "HOL-Library.AList"
begin

section \<open>Python errors\<close>

text \<open>
  The exceptions the modelled code can raise: \<open>ValueError\<close> (\<open>min\<close>/\<open>max\<close> of an empty
  sequence, an integer outside an \<open>IntEnum\<close>), \<open>KeyError\<close> (a missing dictionary key),
  \<open>IndexError\<close> (a list index out of range) and \<open>StopIteration\<close> (\<open>next\<close> on an
  exhausted generator without a default).
\<close>

datatype py_error = ValueError | KeyError | IndexError | StopIteration

section \<open>generictools.py: IntSpanDict\<close>

text \<open>
  \<open>events\<close> is a Python dict (insertion ordered, one entry per key) from a point to the
  list of values appended there; it is kept as an association list in insertion order.
  \<open>spans\<close> is the list of \<open>((start, end), value)\<close> tuples.
\<close>

record 'v IntSpanDict =
  events :: "(int \<times> 'v list) list"
  spans :: "((int \<times> int) \<times> 'v) list"

definition IntSpanDict_init :: "'v IntSpanDict" where
  "IntSpanDict_init = \<lparr>events = [], spans = []\<rparr>"

text \<open>\<open>self.events.get(point, list())\<close>\<close>

definition events_get :: "(int \<times> 'v list) list \<Rightarrow> int \<Rightarrow> 'v list" where
  "events_get es p = (case map_of es p of None \<Rightarrow> [] | Some vs \<Rightarrow> vs)"

text \<open>
  \<open>if point not in self.events: self.events[point] = list()\<close> followed by
  \<open>self.events[point].append(value)\<close>: a new key goes to the end of the dict.
\<close>

fun events_append :: "int \<Rightarrow> 'v \<Rightarrow> (int \<times> 'v list) list \<Rightarrow> (int \<times> 'v list) list" where
  "events_append p v [] = [(p, [v])]"
| "events_append p v ((k, vs) # es) =
     (if k = p then (k, vs @ [v]) # es else (k, vs) # events_append p v es)"

definition append_point :: "int \<Rightarrow> 'v \<Rightarrow> 'v IntSpanDict \<Rightarrow> 'v IntSpanDict" where
  "append_point p v d = d\<lparr>events := events_append p v (events d)\<rparr>"

definition append_span :: "int \<times> int \<Rightarrow> 'v \<Rightarrow> 'v IntSpanDict \<Rightarrow> 'v IntSpanDict" where
  "append_span sp v d = d\<lparr>spans := spans d @ [(sp, v)]\<rparr>"

definition filter_span_from_point :: "'v IntSpanDict \<Rightarrow> int \<Rightarrow> 'v list" where
  "filter_span_from_point d point =
     map snd (filter (\<lambda>(sp, v). fst sp \<le> point \<and> point \<le> snd sp) (spans d))"

definition filter_event_from_span :: "'v IntSpanDict \<Rightarrow> int \<times> int \<Rightarrow> 'v list" where
  "filter_event_from_span d sp =
     concat (map snd (filter (\<lambda>(point, vs). fst sp \<le> point \<and> point \<le> snd sp) (events d)))"

text \<open>The four-way test of \<open>_filter_span_from_span_generator\<close>, in the order of the source.\<close>

definition span_selected :: "int \<times> int \<Rightarrow> int \<times> int \<Rightarrow> bool" where
  "span_selected span_request span_knowledge =
     ((fst span_request \<ge> fst span_knowledge \<and> fst span_request \<le> snd span_knowledge) \<or>
      (snd span_request \<ge> fst span_knowledge \<and> snd span_request \<le> snd span_knowledge) \<or>
      (fst span_knowledge \<ge> fst span_request \<and> fst span_knowledge \<le> snd span_request) \<or>
      (snd span_knowledge \<ge> fst span_request \<and> snd span_knowledge \<le> snd span_request) \<or>
      False)"

definition filter_span_from_span :: "'v IntSpanDict \<Rightarrow> int \<times> int \<Rightarrow> 'v list" where
  "filter_span_from_span d span_request =
     map snd (filter (\<lambda>(span_knowledge, v). span_selected span_request span_knowledge) (spans d))"

definition active_at_point :: "'v IntSpanDict \<Rightarrow> int \<Rightarrow> 'v list" where
  "active_at_point d point = events_get (events d) point @ filter_span_from_point d point"

definition active_at_span :: "'v IntSpanDict \<Rightarrow> int \<times> int \<Rightarrow> 'v list" where
  "active_at_span d sp = filter_event_from_span d sp @ filter_span_from_span d sp"

text \<open>
  \<open>next(zip(*self.spans), list())\<close> is the tuple of all span keys \<open>(start, end)\<close> (or the
  empty list when there is no span); \<open>_flatten\<close> turns it into
  \<open>start\<^sub>1, end\<^sub>1, start\<^sub>2, end\<^sub>2, \<dots>\<close>.
\<close>

definition span_keys_flat :: "'v IntSpanDict \<Rightarrow> int list" where
  "span_keys_flat d = concat (map (\<lambda>(sp, v). [fst sp, snd sp]) (spans d))"

definition points_of_interest :: "'v IntSpanDict \<Rightarrow> int list" where
  "points_of_interest d =
     sorted_list_of_set (set (map fst (events d)) \<union> set (span_keys_flat d))"

definition map_keys_span ::
  "(int \<Rightarrow> int) \<Rightarrow> (int \<times> int) \<times> 'v \<Rightarrow> 'v IntSpanDict \<Rightarrow> 'v IntSpanDict" where
  "map_keys_span mapper e other =
     (let nks = mapper (fst (fst e)); nke = mapper (snd (fst e)) in
      if nks = nke then append_point nks (snd e) other
      else append_span (nks, nke) (snd e) other)"

definition map_keys_event ::
  "(int \<Rightarrow> int) \<Rightarrow> int \<times> 'v list \<Rightarrow> 'v IntSpanDict \<Rightarrow> 'v IntSpanDict" where
  "map_keys_event mapper e other = fold (\<lambda>v. append_point (mapper (fst e)) v) (snd e) other"

definition map_keys :: "(int \<Rightarrow> int) \<Rightarrow> 'v IntSpanDict \<Rightarrow> 'v IntSpanDict" where
  "map_keys mapper d =
     fold (map_keys_event mapper) (events d)
       (fold (map_keys_span mapper) (spans d) IntSpanDict_init)"


section \<open>sabertools.py: enumerations\<close>

text \<open>
  Each \<open>IntEnum\<close> is a datatype with its \<open>.value\<close>; calling the class on an integer
  that is no member raises \<open>ValueError\<close>.
\<close>

datatype NoteLineIndexEnum = OffLeft | FarLeft | LightLeft | LightRight | FarRight | OffRight

fun NoteLineIndexEnum_value :: "NoteLineIndexEnum \<Rightarrow> int" where
  "NoteLineIndexEnum_value OffLeft = -1"
| "NoteLineIndexEnum_value FarLeft = 0"
| "NoteLineIndexEnum_value LightLeft = 1"
| "NoteLineIndexEnum_value LightRight = 2"
| "NoteLineIndexEnum_value FarRight = 3"
| "NoteLineIndexEnum_value OffRight = 4"

definition NoteLineIndexEnum_of :: "int \<Rightarrow> py_error + NoteLineIndexEnum" where
  "NoteLineIndexEnum_of i =
     (if i = -1 then Inr OffLeft else if i = 0 then Inr FarLeft
      else if i = 1 then Inr LightLeft else if i = 2 then Inr LightRight
      else if i = 3 then Inr FarRight else if i = 4 then Inr OffRight
      else Inl ValueError)"

datatype NoteLineLayerEnum = OffBottom | Bottom | Middle | Top | OffTop

fun NoteLineLayerEnum_value :: "NoteLineLayerEnum \<Rightarrow> int" where
  "NoteLineLayerEnum_value OffBottom = -1"
| "NoteLineLayerEnum_value Bottom = 0"
| "NoteLineLayerEnum_value Middle = 1"
| "NoteLineLayerEnum_value Top = 2"
| "NoteLineLayerEnum_value OffTop = 3"

definition NoteLineLayerEnum_of :: "int \<Rightarrow> py_error + NoteLineLayerEnum" where
  "NoteLineLayerEnum_of i =
     (if i = -1 then Inr OffBottom else if i = 0 then Inr Bottom
      else if i = 1 then Inr Middle else if i = 2 then Inr Top
      else if i = 3 then Inr OffTop else Inl ValueError)"

datatype NoteTypeEnum = LeftRedNote | RightBlueNote | Unused | Bomb

fun NoteTypeEnum_value :: "NoteTypeEnum \<Rightarrow> int" where
  "NoteTypeEnum_value LeftRedNote = 0"
| "NoteTypeEnum_value RightBlueNote = 1"
| "NoteTypeEnum_value Unused = 2"
| "NoteTypeEnum_value Bomb = 3"

definition NoteTypeEnum_of :: "int \<Rightarrow> py_error + NoteTypeEnum" where
  "NoteTypeEnum_of i =
     (if i = 0 then Inr LeftRedNote else if i = 1 then Inr RightBlueNote
      else if i = 2 then Inr Unused else if i = 3 then Inr Bomb else Inl ValueError)"

datatype NoteCutDirectionEnum =
  Up | Down | Left | Right | UpLeft | UpRight | DownLeft | DownRight | Any

fun opposite :: "NoteCutDirectionEnum \<Rightarrow> NoteCutDirectionEnum" where
  "opposite Up = Down"
| "opposite Down = Up"
| "opposite Left = Right"
| "opposite Right = Left"
| "opposite UpLeft = DownRight"
| "opposite UpRight = DownLeft"
| "opposite DownLeft = UpRight"
| "opposite DownRight = UpLeft"
| "opposite Any = Any"

text \<open>
  \<open>from_movement\<close> of \<open>src/sabertools.py\<close>, the module that \<open>osu2saber.py\<close> imports:
  the chain of \<open>if\<close>s in the order of the source, with the values the source returns.
\<close>

definition from_movement :: "int \<Rightarrow> int \<Rightarrow> NoteCutDirectionEnum" where
  "from_movement x y =
     (if x = 0 \<and> y = 0 then Any
      else if x < 0 \<and> y = 0 then Left
      else if x > 0 \<and> y = 0 then Right
      else if x = 0 \<and> y > 0 then Up
      else if x < 0 \<and> y > 0 then UpLeft
      else if x > 0 \<and> y > 0 then UpRight
      else if x = 0 \<and> y < 0 then Up
      else if x < 0 \<and> y < 0 then UpLeft
      else if x > 0 \<and> y < 0 then UpRight
      else Any)"

text \<open>
  \<open>from_movement\<close> of the second copy of the module, \<open>src/osu2saber/sabertools.py\<close>,
  which differs in the three branches for \<open>y < 0\<close>.
\<close>

definition from_movement_pkg :: "int \<Rightarrow> int \<Rightarrow> NoteCutDirectionEnum" where
  "from_movement_pkg x y =
     (if x = 0 \<and> y = 0 then Any
      else if x < 0 \<and> y = 0 then Left
      else if x > 0 \<and> y = 0 then Right
      else if x = 0 \<and> y > 0 then Up
      else if x < 0 \<and> y > 0 then UpLeft
      else if x > 0 \<and> y > 0 then UpRight
      else if x = 0 \<and> y < 0 then Down
      else if x < 0 \<and> y < 0 then DownLeft
      else if x > 0 \<and> y < 0 then DownRight
      else Any)"

datatype NoteCanvasPositionEnum =
  TopLft | TopCtr | TopRgt | MidLft | MidCtr | MidRgt | BotLft | BotCtr | BotRgt

fun NoteCanvasPositionEnum_value :: "NoteCanvasPositionEnum \<Rightarrow> int" where
  "NoteCanvasPositionEnum_value TopLft = 1"
| "NoteCanvasPositionEnum_value TopCtr = 2"
| "NoteCanvasPositionEnum_value TopRgt = 3"
| "NoteCanvasPositionEnum_value MidLft = 4"
| "NoteCanvasPositionEnum_value MidCtr = 5"
| "NoteCanvasPositionEnum_value MidRgt = 6"
| "NoteCanvasPositionEnum_value BotLft = 7"
| "NoteCanvasPositionEnum_value BotCtr = 8"
| "NoteCanvasPositionEnum_value BotRgt = 9"

section \<open>sabertools.py: hand coordinates, choreography records, one hand\<close>

record BeatSaberHandCoordinateHolder =
  index :: NoteLineIndexEnum
  layer :: NoteLineLayerEnum

text \<open>The step a cut direction adds to \<open>(idx, lyr)\<close> in \<open>if_follow\<close>, case by case as written.\<close>

fun if_follow_step :: "NoteCutDirectionEnum \<Rightarrow> int \<times> int" where
  "if_follow_step Up = (0, 1)"
| "if_follow_step Down = (0, -1)"
| "if_follow_step Left = (-1, 0)"
| "if_follow_step Right = (1, 0)"
| "if_follow_step UpLeft = (1, -1)"
| "if_follow_step UpRight = (1, 1)"
| "if_follow_step DownLeft = (-1, -1)"
| "if_follow_step DownRight = (-1, 1)"
| "if_follow_step Any = (0, 0)"

definition if_follow ::
  "BeatSaberHandCoordinateHolder \<Rightarrow> NoteCutDirectionEnum \<Rightarrow> py_error + BeatSaberHandCoordinateHolder" where
  "if_follow c cut_dir =
     (let idx = NoteLineIndexEnum_value (index c) + fst (if_follow_step cut_dir);
          lyr = NoteLineLayerEnum_value (layer c) + snd (if_follow_step cut_dir) in
      case NoteLineIndexEnum_of idx of
        Inl e \<Rightarrow> Inl e
      | Inr i \<Rightarrow> (case NoteLineLayerEnum_of lyr of
          Inl e \<Rightarrow> Inl e
        | Inr l \<Rightarrow> Inr \<lparr>index = i, layer = l\<rparr>))"

definition if_goto ::
  "BeatSaberHandCoordinateHolder \<Rightarrow> BeatSaberHandCoordinateHolder \<Rightarrow> NoteCutDirectionEnum" where
  "if_goto c other =
     from_movement (NoteLineIndexEnum_value (index other) - NoteLineIndexEnum_value (index c))
                   (NoteLineLayerEnum_value (layer other) - NoteLineLayerEnum_value (layer c))"

text \<open>
  Beat times are Python floats in this module. The simulator only compares them and
  negates them (in the sort key), which is exact, so the model takes them as rationals;
  the one float computation, the duration of an obstacle, is a parameter of
  \<open>build_coreography\<close>.
\<close>

type_synonym beat = rat

record BeatSaberCoreographyHintHolder =
  beat_start :: beat
  beat_finish :: beat
  coordinate :: BeatSaberHandCoordinateHolder
  coordinate_end :: BeatSaberHandCoordinateHolder
  obstacle_type :: NoteTypeEnum
  cut_direction :: NoteCutDirectionEnum

definition is_arc :: "BeatSaberCoreographyHintHolder \<Rightarrow> bool" where
  "is_arc c = (beat_start c \<noteq> beat_finish c)"

text \<open>
  One hand. The field \<open>coordinate\<close> of the source is \<open>hand_coordinate\<close> here, the name
  being taken by the choreography record.
\<close>

record BeatSaberHandPositionSimulator =
  hdisp :: int
  timing :: beat
  hand_coordinate :: BeatSaberHandCoordinateHolder
  direction :: NoteCutDirectionEnum
  on_arc :: bool

definition adapt ::
  "BeatSaberHandPositionSimulator \<Rightarrow> NoteCanvasPositionEnum \<Rightarrow> py_error + BeatSaberHandCoordinateHolder" where
  "adapt h canvas_pos =
     (case NoteLineIndexEnum_of (((NoteCanvasPositionEnum_value canvas_pos - 1) mod 3) + hdisp h) of
        Inl e \<Rightarrow> Inl e
      | Inr line \<Rightarrow>
         (case NoteLineLayerEnum_of (2 - ((NoteCanvasPositionEnum_value canvas_pos - 1) div 3)) of
            Inl e \<Rightarrow> Inl e
          | Inr lyr \<Rightarrow> Inr \<lparr>index = line, layer = lyr\<rparr>))"

definition check_cut_movement_towards ::
  "BeatSaberHandPositionSimulator \<Rightarrow> BeatSaberHandCoordinateHolder \<Rightarrow> NoteCutDirectionEnum" where
  "check_cut_movement_towards h other = if_goto (hand_coordinate h) other"

text \<open>
  \<open>check_cut\<close>: the local the source calls \<open>is_arc\<close> is \<open>beat_start == beat_finish\<close>.
  The three fallbacks run in sequence, each only while the direction is still \<open>Any\<close>;
  \<open>if_follow\<close> is only evaluated inside the first one.
\<close>

definition check_cut ::
  "BeatSaberHandPositionSimulator \<Rightarrow> beat \<Rightarrow> beat \<Rightarrow> NoteCanvasPositionEnum \<Rightarrow> NoteTypeEnum
     \<Rightarrow> py_error + BeatSaberCoreographyHintHolder" where
  "check_cut h b_start b_finish beat_pos obstacle =
     (let is_arc_local = (b_start = b_finish) in
      case adapt h beat_pos of
        Inl e \<Rightarrow> Inl e
      | Inr canvas_pos \<Rightarrow>
         (let cut0 = check_cut_movement_towards h canvas_pos in
          case (if (is_arc_local \<or> on_arc h) \<and> cut0 = Any
                then (case if_follow (hand_coordinate h) (direction h) of
                        Inl e \<Rightarrow> Inl e
                      | Inr c \<Rightarrow> Inr (check_cut_movement_towards h c))
                else Inr cut0) of
            Inl e \<Rightarrow> Inl e
          | Inr cut1 \<Rightarrow>
             (let cut2 = (if (is_arc_local \<or> on_arc h) \<and> cut1 = Any
                          then opposite (direction h) else cut1);
                  cut3 = (if (is_arc_local \<or> on_arc h) \<and> cut2 = Any then Down else cut2) in
              Inr \<lparr>beat_start = b_start, beat_finish = b_finish,
                   coordinate = canvas_pos, coordinate_end = canvas_pos,
                   obstacle_type = obstacle, cut_direction = cut3\<rparr>)))"

text \<open>\<open>BeatSaberHandPositionSimulator.cut\<close>\<close>

definition cut_hand ::
  "BeatSaberHandPositionSimulator \<Rightarrow> beat \<Rightarrow> BeatSaberCoreographyHintHolder
     \<Rightarrow> BeatSaberHandPositionSimulator" where
  "cut_hand h now c =
     h\<lparr>timing := now, hand_coordinate := coordinate c,
       direction := cut_direction c, on_arc := is_arc c\<rparr>"

section \<open>sabertools.py: BeatSaberHandsPositionsSimulator\<close>

text \<open>
  The simulator object. \<open>coreography_contents\<close> is a dict from identity to record, kept
  as an association list (\<open>map_of\<close> reads it, \<open>AList.update\<close> is the assignment
  \<open>d[k] = v\<close>). The records in it are referenced, not copied: the assignment to
  \<open>last_coreography.coordinate_end\<close> in \<open>move_to\<close> changes the entry stored under that
  identity, and is written as an update of that entry.
\<close>

record BeatSaberHandsPositionsSimulator =
  hands :: "BeatSaberHandPositionSimulator list"
  coreography_ids :: "int list"
  coreography_contents :: "(int \<times> BeatSaberCoreographyHintHolder) list"
  coreography_hand_ids :: "int list"
  last_coreography_hand_ids :: "int list"

definition simulator_init :: BeatSaberHandsPositionsSimulator where
  "simulator_init =
     \<lparr>hands =
        [\<lparr>hdisp = 0, timing = 0, hand_coordinate = \<lparr>index = LightLeft, layer = Top\<rparr>,
          direction = Down, on_arc = True\<rparr>,
         \<lparr>hdisp = 1, timing = 0, hand_coordinate = \<lparr>index = LightRight, layer = Top\<rparr>,
          direction = Down, on_arc = True\<rparr>],
      coreography_ids = [],
      coreography_contents = [],
      coreography_hand_ids = [-1, -1],
      last_coreography_hand_ids = [-1, -1]\<rparr>"

text \<open>\<open>xs[i]\<close> for an index that is never negative: \<open>IndexError\<close> past the end.\<close>

definition list_get :: "'a list \<Rightarrow> nat \<Rightarrow> py_error + 'a" where
  "list_get xs i = (if i < length xs then Inr (xs ! i) else Inl IndexError)"

text \<open>
  The body of the first loop of \<open>move_to\<close> (\<open>for hand in range(2)\<close>), for one hand.
\<close>

definition free_hand ::
  "beat \<Rightarrow> nat \<Rightarrow> BeatSaberHandsPositionsSimulator \<Rightarrow> py_error + BeatSaberHandsPositionsSimulator" where
  "free_hand now hand s =
     (case list_get (coreography_hand_ids s) hand of
        Inl e \<Rightarrow> Inl e
      | Inr coreography_id \<Rightarrow>
         if coreography_id = -1 then Inr s
         else (case map_of (coreography_contents s) coreography_id of
            None \<Rightarrow> Inl KeyError
          | Some c \<Rightarrow>
             if beat_finish c < now then
               (if hand < length (last_coreography_hand_ids s) then
                  (let s1 = s\<lparr>last_coreography_hand_ids :=
                                (last_coreography_hand_ids s)[hand := coreography_id],
                              coreography_hand_ids := (coreography_hand_ids s)[hand := -1]\<rparr> in
                   case list_get (hands s1) hand of
                     Inl e \<Rightarrow> Inl e
                   | Inr h \<Rightarrow>
                      if on_arc h
                      then Inr (s1\<lparr>hands := (hands s1)
                                  [hand := h\<lparr>on_arc := False, direction := opposite (direction h)\<rparr>]\<rparr>)
                      else Inr s1)
                else Inl IndexError)
             else Inr s))"

definition free_hands ::
  "beat \<Rightarrow> BeatSaberHandsPositionsSimulator \<Rightarrow> py_error + BeatSaberHandsPositionsSimulator" where
  "free_hands now s =
     (case free_hand now 0 s of Inl e \<Rightarrow> Inl e | Inr s1 \<Rightarrow> free_hand now 1 s1)"

text \<open>
  A point of attention is the tuple \<open>(beat_id, (beat_start, beat_finish), beat_pos)\<close>.
  \<open>sorted\<close> is stable, as \<open>sort_key\<close> is; the key is the tuple of the source, compared
  lexicographically with \<open>False < True\<close>.
\<close>

type_synonym point_of_attention = "int \<times> (beat \<times> beat) \<times> NoteCanvasPositionEnum"

definition poa_key :: "point_of_attention \<Rightarrow> bool \<times> beat \<times> beat \<times> int" where
  "poa_key poa =
     (fst (fst (snd poa)) \<noteq> snd (fst (snd poa)),
      - snd (fst (snd poa)),
      fst (fst (snd poa)),
      NoteCanvasPositionEnum_value (snd (snd poa)))"

definition sorted_poas :: "point_of_attention list \<Rightarrow> point_of_attention list" where
  "sorted_poas points_of_attention = sort_key poa_key points_of_attention"

text \<open>
  \<open>[NoteTypeEnum(h) for h, x in enumerate(self.coreography_hand_ids)
     if x == -1 or self.coreography_contents[x].beat_start < now]\<close>
\<close>

fun available_from ::
  "beat \<Rightarrow> (int \<times> BeatSaberCoreographyHintHolder) list \<Rightarrow> int \<Rightarrow> int list
     \<Rightarrow> py_error + NoteTypeEnum list" where
  "available_from now cc h [] = Inr []"
| "available_from now cc h (x # xs) =
     (case (if x = -1 then Inr True
            else (case map_of cc x of
                    None \<Rightarrow> Inl KeyError
                  | Some c \<Rightarrow> Inr (beat_start c < now))) of
        Inl e \<Rightarrow> Inl e
      | Inr keep \<Rightarrow>
         (case (if keep
                then (case NoteTypeEnum_of h of Inl e \<Rightarrow> Inl e | Inr t \<Rightarrow> Inr [t])
                else Inr []) of
            Inl e \<Rightarrow> Inl e
          | Inr ts \<Rightarrow>
             (case available_from now cc (h + 1) xs of
                Inl e \<Rightarrow> Inl e
              | Inr rest \<Rightarrow> Inr (ts @ rest))))"

definition available_hands ::
  "beat \<Rightarrow> BeatSaberHandsPositionsSimulator \<Rightarrow> py_error + NoteTypeEnum list" where
  "available_hands now s =
     available_from now (coreography_contents s) 0 (coreography_hand_ids s)"

text \<open>\<open>next(h for h in preferred_hands if h in available_hands)\<close>\<close>

definition first_preferred ::
  "NoteTypeEnum \<times> NoteTypeEnum \<Rightarrow> NoteTypeEnum list \<Rightarrow> py_error + NoteTypeEnum" where
  "first_preferred preferred_hands available =
     (if fst preferred_hands \<in> set available then Inr (fst preferred_hands)
      else if snd preferred_hands \<in> set available then Inr (snd preferred_hands)
      else Inl StopIteration)"

text \<open>The body of \<open>for active_hand_enum in active_hands\<close>.\<close>

definition assign_hand ::
  "beat \<Rightarrow> point_of_attention \<Rightarrow> NoteTypeEnum \<Rightarrow> BeatSaberHandsPositionsSimulator
     \<Rightarrow> py_error + BeatSaberHandsPositionsSimulator" where
  "assign_hand now poa active_hand_enum s =
     (let i = nat (NoteTypeEnum_value active_hand_enum) in
      case list_get (last_coreography_hand_ids s) i of
        Inl e \<Rightarrow> Inl e
      | Inr last_id \<Rightarrow>
     (case list_get (hands s) i of
        Inl e \<Rightarrow> Inl e
      | Inr active_hand \<Rightarrow>
     (case check_cut active_hand (fst (fst (snd poa))) (snd (fst (snd poa))) (snd (snd poa))
             active_hand_enum of
        Inl e \<Rightarrow> Inl e
      | Inr c \<Rightarrow>
         (let cc1 = (case map_of (coreography_contents s) last_id of
                       None \<Rightarrow> coreography_contents s
                     | Some last_coreography \<Rightarrow>
                        if beat_finish last_coreography = beat_start c \<and> is_arc last_coreography
                        then AList.update last_id
                               (last_coreography\<lparr>coordinate_end := coordinate c\<rparr>)
                               (coreography_contents s)
                        else coreography_contents s) in
          Inr (s\<lparr>hands := (hands s)[i := cut_hand active_hand now c],
                 coreography_contents := AList.update (fst poa) c cc1,
                 coreography_ids := coreography_ids s @ [fst poa]\<rparr>)))))"

fun assign_hands ::
  "beat \<Rightarrow> point_of_attention \<Rightarrow> NoteTypeEnum list \<Rightarrow> BeatSaberHandsPositionsSimulator
     \<Rightarrow> py_error + BeatSaberHandsPositionsSimulator" where
  "assign_hands now poa [] s = Inr s"
| "assign_hands now poa (h # hs) s =
     (case assign_hand now poa h s of
        Inl e \<Rightarrow> Inl e
      | Inr s1 \<Rightarrow> assign_hands now poa hs s1)"

text \<open>
  The loop over \<open>sorted_poas\<close>. \<open>continue\<close> goes on with the rest of the list; the
  \<open>return\<close> of the busy-hands branch leaves the function with the state as it is.
\<close>

fun move_loop ::
  "beat \<Rightarrow> bool \<Rightarrow> NoteTypeEnum \<times> NoteTypeEnum \<Rightarrow> point_of_attention list
     \<Rightarrow> BeatSaberHandsPositionsSimulator \<Rightarrow> py_error + BeatSaberHandsPositionsSimulator" where
  "move_loop now both_hands preferred_hands [] s = Inr s"
| "move_loop now both_hands preferred_hands (poa # rest) s =
     (if now \<noteq> fst (fst (snd poa)) \<and> now \<noteq> snd (fst (snd poa))
      then move_loop now both_hands preferred_hands rest s
      else (case available_hands now s of
         Inl e \<Rightarrow> Inl e
       | Inr available \<Rightarrow>
          if length available < 1 then Inr s
          else (case (if \<not> both_hands
                      then (case first_preferred preferred_hands available of
                              Inl e \<Rightarrow> Inl e
                            | Inr h \<Rightarrow> Inr [h])
                      else Inr available) of
             Inl e \<Rightarrow> Inl e
           | Inr active_hands \<Rightarrow>
              (case assign_hands now poa active_hands s of
                 Inl e \<Rightarrow> Inl e
               | Inr s1 \<Rightarrow> move_loop now both_hands preferred_hands rest s1))))"

definition move_to ::
  "beat \<Rightarrow> bool \<Rightarrow> NoteTypeEnum \<times> NoteTypeEnum \<Rightarrow> point_of_attention list
     \<Rightarrow> BeatSaberHandsPositionsSimulator \<Rightarrow> py_error + BeatSaberHandsPositionsSimulator" where
  "move_to now both_hands preferred_hands points_of_attention s =
     (case free_hands now s of
        Inl e \<Rightarrow> Inl e
      | Inr s1 \<Rightarrow> move_loop now both_hands preferred_hands (sorted_poas points_of_attention) s1)"

text \<open>
  A sequence of calls \<open>move_to(now, both_hands, preferred_hands, points_of_attention)\<close>
  on one simulator; a call that raises ends the run.
\<close>

type_synonym move_call =
  "beat \<times> bool \<times> (NoteTypeEnum \<times> NoteTypeEnum) \<times> point_of_attention list"

fun run_moves ::
  "move_call list \<Rightarrow> BeatSaberHandsPositionsSimulator
     \<Rightarrow> py_error + BeatSaberHandsPositionsSimulator" where
  "run_moves [] s = Inr s"
| "run_moves (c # cs) s =
     (case move_to (fst c) (fst (snd c)) (fst (snd (snd c))) (snd (snd (snd c))) s of
        Inl e \<Rightarrow> Inl e
      | Inr s1 \<Rightarrow> run_moves cs s1)"

section \<open>sabertools.py: build_coreography\<close>

record BeatSaberDifficultyNote =
  note_time :: beat
  note_lineIndex :: NoteLineIndexEnum
  note_lineLayer :: NoteLineLayerEnum
  note_type :: NoteTypeEnum
  note_cutDirection :: NoteCutDirectionEnum

datatype SliderMidAnchorModeEnum = Straight | Clockwise | CounterClockwise

record BeatSaberDifficultySlider =
  colorType :: NoteTypeEnum
  headTime :: beat
  headLineIndex :: NoteLineIndexEnum
  headLineLayer :: NoteLineLayerEnum
  headControlPointLengthMultiplier :: rat
  headCutDirection :: NoteCutDirectionEnum
  tailTime :: beat
  tailLineIndex :: NoteLineIndexEnum
  tailLineLayer :: NoteLineLayerEnum
  tailControlPointLengthMultiplier :: rat
  tailCutDirection :: NoteCutDirectionEnum
  sliderMidAnchorMode :: SliderMidAnchorModeEnum

datatype BeatSaberDifficultyObstacleTypeEnum = FullHeightWall | CrouchWall

record BeatSaberDifficultyObstacle =
  obstacle_time :: beat
  obstacle_lineIndex :: NoteLineIndexEnum
  obstacle_kind :: BeatSaberDifficultyObstacleTypeEnum
  obstacle_duration :: rat
  obstacle_width :: int

text \<open>
  The lists \<open>notes\<close>, \<open>sliders\<close> and \<open>obstacles\<close> of \<open>BeatSaberDifficultyV260\<close>,
  which \<open>build_coreography\<close> fills (\<open>version\<close>,
  \<open>events\<close>, \<open>waypoints\<close>, \<open>difficulty_label\<close> and \<open>customData\<close> keep the values of the
  constructor).
\<close>

record BeatSaberDifficultyV260 =
  d_notes :: "BeatSaberDifficultyNote list"
  d_sliders :: "BeatSaberDifficultySlider list"
  d_obstacles :: "BeatSaberDifficultyObstacle list"

text \<open>
  The first loop of \<open>build_coreography\<close>, over \<open>self.coreography_ids\<close>: the note and
  the slider built from one record, and the body of the loop.
\<close>

definition note_of :: "BeatSaberCoreographyHintHolder \<Rightarrow> BeatSaberDifficultyNote" where
  "note_of c =
     \<lparr>note_time = beat_start c,
      note_lineIndex = index (coordinate c),
      note_lineLayer = layer (coordinate c),
      note_type = obstacle_type c,
      note_cutDirection = cut_direction c\<rparr>"

definition slider_of :: "BeatSaberCoreographyHintHolder \<Rightarrow> BeatSaberDifficultySlider" where
  "slider_of c =
     \<lparr>colorType = obstacle_type c,
      headTime = beat_start c,
      headLineIndex = index (coordinate c),
      headLineLayer = layer (coordinate c),
      headControlPointLengthMultiplier = 1,
      headCutDirection = cut_direction c,
      tailTime = beat_finish c,
      tailLineIndex = index (coordinate_end c),
      tailLineLayer = layer (coordinate_end c),
      tailControlPointLengthMultiplier = 1,
      tailCutDirection = opposite (cut_direction c),
      sliderMidAnchorMode = Straight\<rparr>"

definition emit_record ::
  "BeatSaberCoreographyHintHolder \<Rightarrow> BeatSaberDifficultyV260 \<Rightarrow> BeatSaberDifficultyV260" where
  "emit_record c difficulty =
     (let d1 = difficulty\<lparr>d_notes := d_notes difficulty @ [note_of c]\<rparr> in
      if is_arc c then d1\<lparr>d_sliders := d_sliders d1 @ [slider_of c]\<rparr> else d1)"

fun build_notes ::
  "(int \<times> BeatSaberCoreographyHintHolder) list \<Rightarrow> int list \<Rightarrow> BeatSaberDifficultyV260
     \<Rightarrow> py_error + BeatSaberDifficultyV260" where
  "build_notes cc [] difficulty = Inr difficulty"
| "build_notes cc (cid # ids) difficulty =
     (case map_of cc cid of
        None \<Rightarrow> Inl KeyError
      | Some c \<Rightarrow> build_notes cc ids (emit_record c difficulty))"

text \<open>
  The second loop, over \<open>breaks\<close>: two walls for each break \<open>(s, e)\<close>. The duration of a
  wall is the float expression \<open>round((e - s) * 4) / 4\<close>, whose subtraction and product
  round in binary floating point; it is not computed on the rationals here but taken as
  the parameter \<open>float_duration\<close>, a function of \<open>s\<close> and \<open>e\<close>.
\<close>

definition break_obstacles ::
  "(beat \<Rightarrow> beat \<Rightarrow> rat) \<Rightarrow> beat \<times> beat \<Rightarrow> BeatSaberDifficultyObstacle list" where
  "break_obstacles float_duration b =
     map (\<lambda>w. \<lparr>obstacle_time = fst b, obstacle_lineIndex = w,
                obstacle_kind = FullHeightWall,
                obstacle_duration = float_duration (fst b) (snd b),
                obstacle_width = 1\<rparr>)
         [FarLeft, FarRight]"

definition build_coreography ::
  "(beat \<Rightarrow> beat \<Rightarrow> rat) \<Rightarrow> BeatSaberHandsPositionsSimulator \<Rightarrow> (beat \<times> beat) list
     \<Rightarrow> py_error + BeatSaberDifficultyV260" where
  "build_coreography float_duration s breaks =
     (case build_notes (coreography_contents s) (coreography_ids s)
             \<lparr>d_notes = [], d_sliders = [], d_obstacles = []\<rparr> of
        Inl e \<Rightarrow> Inl e
      | Inr difficulty \<Rightarrow>
         Inr (difficulty\<lparr>d_obstacles := d_obstacles difficulty
                @ concat (map (break_obstacles float_duration) breaks)\<rparr>))"

section \<open>osu2saber.py: the bounding box of the entries active at a point of interest\<close>

text \<open>
  The hit objects stored in the index, with the accessors the loop of
  \<open>convert_beatsets_osu2saber\<close> reads.
\<close>

record OsuHitObject =
  coord_x :: int
  coord_y :: int
  start_time :: rat
  new_combo :: int
  is_kiai :: bool

text \<open>\<open>min\<close> and \<open>max\<close> of a sequence: \<open>ValueError\<close> when it is empty.\<close>

fun py_min :: "int list \<Rightarrow> py_error + int" where
  "py_min [] = Inl ValueError"
| "py_min (x # xs) = Inr (fold min xs x)"

fun py_max :: "int list \<Rightarrow> py_error + int" where
  "py_max [] = Inl ValueError"
| "py_max (x # xs) = Inr (fold max xs x)"

definition active_points_of_interest :: "OsuHitObject IntSpanDict \<Rightarrow> int \<Rightarrow> OsuHitObject list" where
  "active_points_of_interest d point_of_interest =
     sort_key (\<lambda>a. (start_time a, new_combo a, is_kiai a)) (active_at_point d point_of_interest)"

text \<open>
  \<open>iw = [[min(xs), max(xs)], [min(ys), max(ys)]]\<close> over the active entries, evaluated
  in that order.
\<close>

definition initial_window :: "OsuHitObject list \<Rightarrow> py_error + ((int \<times> int) \<times> (int \<times> int))" where
  "initial_window active =
     (case py_min (map coord_x active) of
        Inl e \<Rightarrow> Inl e
      | Inr x0 \<Rightarrow> (case py_max (map coord_x active) of
        Inl e \<Rightarrow> Inl e
      | Inr x1 \<Rightarrow> (case py_min (map coord_y active) of
        Inl e \<Rightarrow> Inl e
      | Inr y0 \<Rightarrow> (case py_max (map coord_y active) of
        Inl e \<Rightarrow> Inl e
      | Inr y1 \<Rightarrow> Inr ((x0, x1), (y0, y1))))))"

text \<open>
  An index as the conversion builds it: no point key with an empty list (\<open>append_point\<close>
  never leaves one), and every span with its start not after its end.
\<close>

definition events_nonempty :: "'v IntSpanDict \<Rightarrow> bool" where
  "events_nonempty d = list_all (\<lambda>e. snd e \<noteq> []) (events d)"

definition spans_ordered :: "'v IntSpanDict \<Rightarrow> bool" where
  "spans_ordered d = list_all (\<lambda>e. fst (fst e) \<le> snd (fst e)) (spans d)"

section \<open>osu2saber/sabertools.py: the second copy of the simulator\<close>

text \<open>
  The repository holds a second copy of the module, \<open>src/osu2saber/sabertools.py\<close>,
  whose classes have the same shape: the records above are reused for it (its
  choreography record calls the fields \<open>time_start\<close>, \<open>time_finish\<close> and \<open>note_type\<close>,
  and types the times as integers, which the rationals include). The functions that
  differ are given here with the suffix \<open>_pkg\<close>; \<open>adapt\<close>, \<open>opposite\<close> and the
  constructor state are the same in both copies.
\<close>

text \<open>
  \<open>into_movement\<close>: \<open>y\<close> from the name's prefix \<open>Up\<close>/\<open>Down\<close>, \<open>x\<close> from its suffix
  \<open>Right\<close>/\<open>Left\<close>.
\<close>

fun into_movement :: "NoteCutDirectionEnum \<Rightarrow> int \<times> int" where
  "into_movement Up = (0, 1)"
| "into_movement Down = (0, -1)"
| "into_movement Left = (-1, 0)"
| "into_movement Right = (1, 0)"
| "into_movement UpLeft = (-1, 1)"
| "into_movement UpRight = (1, 1)"
| "into_movement DownLeft = (-1, -1)"
| "into_movement DownRight = (1, -1)"
| "into_movement Any = (0, 0)"

definition if_follow_pkg ::
  "BeatSaberHandCoordinateHolder \<Rightarrow> NoteCutDirectionEnum \<Rightarrow> py_error + BeatSaberHandCoordinateHolder" where
  "if_follow_pkg c cut_dir =
     (let m = into_movement cut_dir;
          idx = NoteLineIndexEnum_value (index c) + fst m;
          lyr = NoteLineLayerEnum_value (layer c) + snd m in
      case NoteLineIndexEnum_of idx of
        Inl e \<Rightarrow> Inl e
      | Inr i \<Rightarrow> (case NoteLineLayerEnum_of lyr of
          Inl e \<Rightarrow> Inl e
        | Inr l \<Rightarrow> Inr \<lparr>index = i, layer = l\<rparr>))"

definition if_goto_pkg ::
  "BeatSaberHandCoordinateHolder \<Rightarrow> BeatSaberHandCoordinateHolder \<Rightarrow> NoteCutDirectionEnum" where
  "if_goto_pkg c other =
     from_movement_pkg
       (NoteLineIndexEnum_value (index other) - NoteLineIndexEnum_value (index c))
       (NoteLineLayerEnum_value (layer other) - NoteLineLayerEnum_value (layer c))"

definition check_cut_pkg ::
  "BeatSaberHandPositionSimulator \<Rightarrow> beat \<Rightarrow> beat \<Rightarrow> NoteCanvasPositionEnum \<Rightarrow> NoteTypeEnum
     \<Rightarrow> py_error + BeatSaberCoreographyHintHolder" where
  "check_cut_pkg h time_start time_finish beat_pos note_tp =
     (let is_arc_local = (time_start \<noteq> time_finish) in
      case adapt h beat_pos of
        Inl e \<Rightarrow> Inl e
      | Inr canvas_pos \<Rightarrow>
         (let cut0 = if_goto_pkg (hand_coordinate h) canvas_pos in
          case (if (is_arc_local \<or> on_arc h) \<and> cut0 = Any
                then (case if_follow_pkg (hand_coordinate h) (direction h) of
                        Inl e \<Rightarrow> Inl e
                      | Inr c \<Rightarrow> Inr (if_goto_pkg (hand_coordinate h) c))
                else Inr cut0) of
            Inl e \<Rightarrow> Inl e
          | Inr cut1 \<Rightarrow>
             (let cut2 = (if (is_arc_local \<or> on_arc h) \<and> cut1 = Any
                          then opposite (direction h) else cut1);
                  cut3 = (if (is_arc_local \<or> on_arc h) \<and> cut2 = Any then Down else cut2) in
              Inr \<lparr>beat_start = time_start, beat_finish = time_finish,
                   coordinate = canvas_pos, coordinate_end = canvas_pos,
                   obstacle_type = note_tp, cut_direction = cut3\<rparr>)))"

definition cut_hand_pkg ::
  "BeatSaberHandPositionSimulator \<Rightarrow> beat \<Rightarrow> BeatSaberCoreographyHintHolder
     \<Rightarrow> py_error + BeatSaberHandPositionSimulator" where
  "cut_hand_pkg h now c =
     (case if_follow_pkg (coordinate c) (cut_direction c) of
        Inl e \<Rightarrow> Inl e
      | Inr co \<Rightarrow> Inr (h\<lparr>timing := now, hand_coordinate := co,
                           direction := cut_direction c, on_arc := is_arc c\<rparr>))"

definition free_hand_pkg ::
  "beat \<Rightarrow> nat \<Rightarrow> BeatSaberHandsPositionsSimulator \<Rightarrow> py_error + BeatSaberHandsPositionsSimulator" where
  "free_hand_pkg now hand s =
     (case list_get (coreography_hand_ids s) hand of
        Inl e \<Rightarrow> Inl e
      | Inr coreography_id \<Rightarrow>
         if coreography_id = -1 then Inr s
         else (case map_of (coreography_contents s) coreography_id of
            None \<Rightarrow> Inl KeyError
          | Some c \<Rightarrow>
             if now \<ge> beat_finish c then
               (if hand < length (last_coreography_hand_ids s) then
                  (let s1 = s\<lparr>last_coreography_hand_ids :=
                                (last_coreography_hand_ids s)[hand := coreography_id],
                              coreography_hand_ids := (coreography_hand_ids s)[hand := -1]\<rparr> in
                   case list_get (hands s1) hand of
                     Inl e \<Rightarrow> Inl e
                   | Inr h \<Rightarrow>
                      if on_arc h
                      then Inr (s1\<lparr>hands := (hands s1)[hand := h\<lparr>on_arc := False\<rparr>]\<rparr>)
                      else Inr s1)
                else Inl IndexError)
             else Inr s))"

definition free_hands_pkg ::
  "beat \<Rightarrow> BeatSaberHandsPositionsSimulator \<Rightarrow> py_error + BeatSaberHandsPositionsSimulator" where
  "free_hands_pkg now s =
     (case free_hand_pkg now 0 s of Inl e \<Rightarrow> Inl e | Inr s1 \<Rightarrow> free_hand_pkg now 1 s1)"

text \<open>
  \<open>[NoteTypeEnum(h) for h, x in enumerate(self.coreography_hand_ids) if x == -1]\<close>
\<close>

fun available_from_pkg :: "int \<Rightarrow> int list \<Rightarrow> py_error + NoteTypeEnum list" where
  "available_from_pkg h [] = Inr []"
| "available_from_pkg h (x # xs) =
     (case (if x = -1
            then (case NoteTypeEnum_of h of Inl e \<Rightarrow> Inl e | Inr t \<Rightarrow> Inr [t])
            else Inr []) of
        Inl e \<Rightarrow> Inl e
      | Inr ts \<Rightarrow>
         (case available_from_pkg (h + 1) xs of
            Inl e \<Rightarrow> Inl e
          | Inr rest \<Rightarrow> Inr (ts @ rest)))"

text \<open>
  The body of \<open>for active_hand_enum in active_hands\<close>; the locals \<open>moved\<close> and
  \<open>last_both_handed_cut_direction\<close> are carried beside the simulator.
\<close>

definition assign_hand_pkg ::
  "beat \<Rightarrow> bool \<Rightarrow> point_of_attention \<Rightarrow> NoteTypeEnum
     \<Rightarrow> BeatSaberHandsPositionsSimulator \<times> bool \<times> NoteCutDirectionEnum
     \<Rightarrow> py_error + (BeatSaberHandsPositionsSimulator \<times> bool \<times> NoteCutDirectionEnum)" where
  "assign_hand_pkg now both_hands poa active_hand_enum st =
     (let s = fst st; moved = fst (snd st); last_both = snd (snd st);
          i = nat (NoteTypeEnum_value active_hand_enum) in
      case list_get (last_coreography_hand_ids s) i of
        Inl e \<Rightarrow> Inl e
      | Inr last_id \<Rightarrow>
     (case list_get (hands s) i of
        Inl e \<Rightarrow> Inl e
      | Inr active_hand \<Rightarrow>
     (case check_cut_pkg active_hand (fst (fst (snd poa))) (snd (fst (snd poa))) (snd (snd poa))
             active_hand_enum of
        Inl e \<Rightarrow> Inl e
      | Inr c0 \<Rightarrow>
         (let cc = coreography_contents s;
              r = (case map_of cc last_id of
                     None \<Rightarrow> (cc, c0, moved, last_both)
                   | Some last_coreography \<Rightarrow>
                      if \<bar>beat_finish last_coreography - beat_start c0\<bar> \<le> 750
                         \<and> is_arc last_coreography
                      then
                        (let cc1 = AList.update last_id
                                     (last_coreography\<lparr>coordinate_end := coordinate c0,
                                                       beat_finish := beat_start c0\<rparr>) cc;
                             c1 = c0\<lparr>cut_direction := opposite (cut_direction last_coreography)\<rparr> in
                         if both_hands
                         then (if last_both = Any
                               then (cc1, c1, moved, cut_direction c1)
                               else (cc1, c1\<lparr>cut_direction := last_both\<rparr>, moved, last_both))
                         else (cc1, c1, moved, last_both))
                      else if \<not> is_arc last_coreography \<and> \<not> is_arc c0
                              \<and> layer (coordinate last_coreography) = layer (coordinate c0)
                              \<and> index (coordinate last_coreography) = index (coordinate c0)
                      then (cc, c0\<lparr>cut_direction := Any\<rparr>, False, last_both)
                      else (cc, c0, moved, last_both));
              cc2 = fst r; c = fst (snd r);
              moved2 = (if is_arc c then False else fst (snd (snd r)));
              last_both2 = snd (snd (snd r));
              fixed_beat_id = (if \<not> both_hands then fst poa
                               else fst poa + NoteTypeEnum_value active_hand_enum) in
          case cut_hand_pkg active_hand now c of
            Inl e \<Rightarrow> Inl e
          | Inr h' \<Rightarrow>
             if i < length (coreography_hand_ids s)
             then Inr (s\<lparr>hands := (hands s)[i := h'],
                         coreography_hand_ids := (coreography_hand_ids s)[i := fixed_beat_id],
                         coreography_contents := AList.update fixed_beat_id c cc2,
                         coreography_ids := coreography_ids s @ [fixed_beat_id]\<rparr>,
                       moved2, last_both2)
             else Inl IndexError))))"

fun assign_hands_pkg ::
  "beat \<Rightarrow> bool \<Rightarrow> point_of_attention \<Rightarrow> NoteTypeEnum list
     \<Rightarrow> BeatSaberHandsPositionsSimulator \<times> bool \<times> NoteCutDirectionEnum
     \<Rightarrow> py_error + (BeatSaberHandsPositionsSimulator \<times> bool \<times> NoteCutDirectionEnum)" where
  "assign_hands_pkg now both_hands poa [] st = Inr st"
| "assign_hands_pkg now both_hands poa (h # hs) st =
     (case assign_hand_pkg now both_hands poa h st of
        Inl e \<Rightarrow> Inl e
      | Inr st1 \<Rightarrow> assign_hands_pkg now both_hands poa hs st1)"

text \<open>The loop over \<open>sorted_poas\<close>, with the counter \<open>moves\<close>; every skip is a \<open>continue\<close>.\<close>

fun move_loop_pkg ::
  "beat \<Rightarrow> bool \<Rightarrow> NoteTypeEnum \<times> NoteTypeEnum \<Rightarrow> point_of_attention list
     \<Rightarrow> BeatSaberHandsPositionsSimulator \<times> int
     \<Rightarrow> py_error + (BeatSaberHandsPositionsSimulator \<times> int)" where
  "move_loop_pkg now both_hands preferred_hands [] sm = Inr sm"
| "move_loop_pkg now both_hands preferred_hands (poa # rest) sm =
     (if now \<noteq> fst (fst (snd poa))
      then move_loop_pkg now both_hands preferred_hands rest sm
      else if fst poa \<in> set (coreography_ids (fst sm))
      then move_loop_pkg now both_hands preferred_hands rest sm
      else (case available_from_pkg 0 (coreography_hand_ids (fst sm)) of
         Inl e \<Rightarrow> Inl e
       | Inr available \<Rightarrow>
          if length available < 1
          then move_loop_pkg now both_hands preferred_hands rest sm
          else (case (if both_hands
                      then Inr [fst preferred_hands, snd preferred_hands]
                      else (case first_preferred preferred_hands available of
                              Inl e \<Rightarrow> Inl e
                            | Inr h \<Rightarrow> Inr [h])) of
             Inl e \<Rightarrow> Inl e
           | Inr active_hands \<Rightarrow>
              (case assign_hands_pkg now both_hands poa active_hands (fst sm, True, Any) of
                 Inl e \<Rightarrow> Inl e
               | Inr st \<Rightarrow>
                  move_loop_pkg now both_hands preferred_hands rest
                    (fst st, if fst (snd st) then snd sm + 1 else snd sm)))))"

definition move_to_pkg ::
  "beat \<Rightarrow> bool \<Rightarrow> NoteTypeEnum \<times> NoteTypeEnum \<Rightarrow> point_of_attention list
     \<Rightarrow> BeatSaberHandsPositionsSimulator \<Rightarrow> py_error + (BeatSaberHandsPositionsSimulator \<times> int)" where
  "move_to_pkg now both_hands preferred_hands points_of_attention s =
     (case free_hands_pkg now s of
        Inl e \<Rightarrow> Inl e
      | Inr s1 \<Rightarrow>
         move_loop_pkg now both_hands preferred_hands (sorted_poas points_of_attention) (s1, 0))"

text \<open>A sequence of calls of \<open>move_to\<close> of the second copy; the counts of moves are dropped.\<close>

fun run_moves_pkg ::
  "move_call list \<Rightarrow> BeatSaberHandsPositionsSimulator
     \<Rightarrow> py_error + BeatSaberHandsPositionsSimulator" where
  "run_moves_pkg [] s = Inr s"
| "run_moves_pkg (c # cs) s =
     (case move_to_pkg (fst c) (fst (snd c)) (fst (snd (snd c))) (snd (snd (snd c))) s of
        Inl e \<Rightarrow> Inl e
      | Inr sm \<Rightarrow> run_moves_pkg cs (fst sm))"

section \<open>States and calls the properties speak about\<close>

text \<open>
  The playable grid: columns \<open>FarLeft\<close> to \<open>FarRight\<close>, rows \<open>Bottom\<close> to \<open>Top\<close>. A hand
  built by the constructor has \<open>hdisp\<close> 0 or 1 and stands on the grid.
\<close>

definition on_grid :: "BeatSaberHandCoordinateHolder \<Rightarrow> bool" where
  "on_grid c =
     (index c \<noteq> OffLeft \<and> index c \<noteq> OffRight \<and> layer c \<noteq> OffBottom \<and> layer c \<noteq> OffTop)"

definition hand_ok :: "BeatSaberHandPositionSimulator \<Rightarrow> bool" where
  "hand_ok h = ((hdisp h = 0 \<or> hdisp h = 1) \<and> on_grid (hand_coordinate h))"

text \<open>No hand is marked as serving a record, and none has a previous record.\<close>

definition no_hand_busy :: "BeatSaberHandsPositionsSimulator \<Rightarrow> bool" where
  "no_hand_busy s =
     (coreography_hand_ids s = [-1, -1] \<and> last_coreography_hand_ids s = [-1, -1])"

definition sim_ok :: "BeatSaberHandsPositionsSimulator \<Rightarrow> bool" where
  "sim_ok s = (length (hands s) = 2 \<and> list_all hand_ok (hands s) \<and> no_hand_busy s)"

text \<open>
  A call names a usable hand when one of \<open>preferred_hands\<close> is the left or the right
  hand; a single-hand call has \<open>both_hands\<close> false and names a usable hand.
\<close>

definition names_hand :: "NoteTypeEnum \<times> NoteTypeEnum \<Rightarrow> bool" where
  "names_hand preferred_hands =
     (fst preferred_hands = LeftRedNote \<or> fst preferred_hands = RightBlueNote
      \<or> snd preferred_hands = LeftRedNote \<or> snd preferred_hands = RightBlueNote)"

definition single_hand_call :: "move_call \<Rightarrow> bool" where
  "single_hand_call c = (\<not> fst (snd c) \<and> names_hand (fst (snd (snd c))))"

definition usable_call :: "move_call \<Rightarrow> bool" where
  "usable_call c = (fst (snd c) \<or> names_hand (fst (snd (snd c))))"

text \<open>
  A point is due at \<open>now\<close> when \<open>now\<close> is its start or its finish time: the points the
  first test of the loop of \<open>move_to\<close> lets through. \<open>due_ids\<close> lists the identities of
  the due points of a call in the order the loop meets them; \<open>recorded_ids\<close> repeats each
  once per hand that serves it (two in both-hands mode).
\<close>

definition due :: "beat \<Rightarrow> point_of_attention \<Rightarrow> bool" where
  "due now poa = (now = fst (fst (snd poa)) \<or> now = snd (fst (snd poa)))"

definition due_ids :: "move_call \<Rightarrow> int list" where
  "due_ids c = map fst (filter (due (fst c)) (sorted_poas (snd (snd (snd c)))))"

definition recorded_ids :: "move_call \<Rightarrow> int list" where
  "recorded_ids c =
     concat (map (\<lambda>poa. replicate (if fst (snd c) then 2 else 1) (fst poa))
                 (filter (due (fst c)) (sorted_poas (snd (snd (snd c))))))"

text \<open>
  Two simulator states set by hand: the left hand serving the arc \<open>7\<close> from beat 0 to
  beat 2, and both hands serving arcs from beat 0 to beat 2.
\<close>

definition arc_record :: "NoteLineIndexEnum \<Rightarrow> NoteTypeEnum \<Rightarrow> BeatSaberCoreographyHintHolder" where
  "arc_record line hand =
     \<lparr>beat_start = 0, beat_finish = 2,
      coordinate = \<lparr>index = line, layer = Top\<rparr>,
      coordinate_end = \<lparr>index = line, layer = Top\<rparr>,
      obstacle_type = hand, cut_direction = Down\<rparr>"

definition sim_left_busy :: BeatSaberHandsPositionsSimulator where
  "sim_left_busy =
     simulator_init\<lparr>coreography_ids := [7],
                    coreography_contents := [(7, arc_record LightLeft LeftRedNote)],
                    coreography_hand_ids := [7, -1]\<rparr>"

definition sim_both_busy :: BeatSaberHandsPositionsSimulator where
  "sim_both_busy =
     simulator_init\<lparr>coreography_ids := [7, 8],
                    coreography_contents := [(7, arc_record LightLeft LeftRedNote),
                                             (8, arc_record LightRight RightBlueNote)],
                    coreography_hand_ids := [7, 8]\<rparr>"

section \<open>Properties of IntSpanDict\<close>

lemma points_of_interest_eval:
  "points_of_interest d = sort (remdups (map fst (events d) @ span_keys_flat d))"
  unfolding points_of_interest_def set_append[symmetric] sorted_list_of_set_sort_remdups ..

lemma set_span_keys_flat:
  "set (span_keys_flat d) = (fst \<circ> fst) ` set (spans d) \<union> (snd \<circ> fst) ` set (spans d)"
  unfolding span_keys_flat_def by (force simp: image_iff split: prod.splits)

text \<open>
  Claim C2, as the code has it: \<open>points_of_interest()\<close> is the sorted list, without
  duplicates, of all point-event keys together with the start and the end coordinate of
  every span; after \<open>append_span((5, 9), v)\<close> on an empty index it is \<open>[5, 9]\<close>.
\<close>

theorem points_of_interest_with_span_ends:
  "set (points_of_interest d) =
     fst ` set (events d) \<union> (fst \<circ> fst) ` set (spans d) \<union> (snd \<circ> fst) ` set (spans d)
   \<and> sorted (points_of_interest d) \<and> distinct (points_of_interest d)
   \<and> points_of_interest (append_span (5, 9) v IntSpanDict_init) = [5, 9]"
proof -
  have "points_of_interest (append_span (5, 9) v IntSpanDict_init) = [5, 9]"
    by (simp add: points_of_interest_eval append_span_def IntSpanDict_init_def span_keys_flat_def)
  moreover have "set (points_of_interest d) =
     fst ` set (events d) \<union> (fst \<circ> fst) ` set (spans d) \<union> (snd \<circ> fst) ` set (spans d)"
    by (simp add: points_of_interest_eval set_span_keys_flat Un_assoc)
  moreover have "sorted (points_of_interest d)" "distinct (points_of_interest d)"
    by (simp_all add: points_of_interest_eval)
  ultimately show ?thesis by blast
qed

text \<open>
  The claim as the specification states it (span ends are left out, the result is \<open>[5]\<close>)
  fails on the index that holds the single span \<open>(5, 9)\<close>: the end \<open>9\<close> is a point of
  interest.
\<close>

theorem points_of_interest_span_end_counterexample:
  "points_of_interest (append_span (5, 9) (0::nat) IntSpanDict_init) \<noteq> [5]
   \<and> 9 \<in> set (points_of_interest (append_span (5, 9) (0::nat) IntSpanDict_init))"
  by (simp add: points_of_interest_eval append_span_def IntSpanDict_init_def span_keys_flat_def)

lemma span_selected_iff:
  "a \<le> b \<Longrightarrow> lo \<le> hi \<Longrightarrow> span_selected (lo, hi) (a, b) \<longleftrightarrow> lo \<le> b \<and> a \<le> hi"
  unfolding span_selected_def by auto

lemma set_filter_span_from_span:
  "set (filter_span_from_span d req) = {v. \<exists>k. (k, v) \<in> set (spans d) \<and> span_selected req k}"
  unfolding filter_span_from_span_def by (force simp: case_prod_beta image_iff)

lemma set_filter_event_from_span:
  "set (filter_event_from_span d req) =
     {v. \<exists>e \<in> set (events d). fst req \<le> fst e \<and> fst e \<le> snd req \<and> v \<in> set (snd e)}"
  proof -
  have "x \<in> set (filter_event_from_span d req) \<longleftrightarrow>
        (\<exists>e \<in> set (events d). fst req \<le> fst e \<and> fst e \<le> snd req \<and> x \<in> set (snd e))" for x
    unfolding filter_event_from_span_def by (auto simp: case_prod_beta) force+
  then show ?thesis by blast
qed

text \<open>
  Claim C6: a stored span \<open>(a, b)\<close> with \<open>a \<le> b\<close> and a query \<open>(lo, hi)\<close> with
  \<open>lo \<le> hi\<close>. If the closed intervals meet, the span's value is in
  \<open>active_at_span((lo, hi))\<close>; and when the value is stored nowhere else in the index
  (no point event holds it, no other span carries it), it is in the result exactly when
  the intervals meet. The stored span \<open>(10, 20)\<close> is returned for the query \<open>(20, 30)\<close>
  and not for \<open>(21, 30)\<close>.
\<close>

theorem active_at_span_inclusive_overlap:
  assumes "((a, b), v) \<in> set (spans d)" and "a \<le> b" and "lo \<le> hi"
  shows "(lo \<le> b \<and> a \<le> hi \<longrightarrow> v \<in> set (active_at_span d (lo, hi)))
       \<and> ((\<forall>e \<in> set (events d). v \<notin> set (snd e))
            \<and> (\<forall>e \<in> set (spans d). snd e = v \<longrightarrow> fst e = (a, b))
          \<longrightarrow> (v \<in> set (active_at_span d (lo, hi)) \<longleftrightarrow> lo \<le> b \<and> a \<le> hi))
       \<and> active_at_span (append_span (10, 20) v IntSpanDict_init) (20, 30) = [v]
       \<and> active_at_span (append_span (10, 20) v IntSpanDict_init) (21, 30) = []"
proof -
  have sel: "span_selected (lo, hi) (a, b) \<longleftrightarrow> lo \<le> b \<and> a \<le> hi"
    using assms(2,3) by (rule span_selected_iff)
  have incl: "lo \<le> b \<and> a \<le> hi \<longrightarrow> v \<in> set (active_at_span d (lo, hi))"
    using assms(1) sel by (auto simp: active_at_span_def set_filter_span_from_span)
  have only: "v \<in> set (active_at_span d (lo, hi)) \<longleftrightarrow> lo \<le> b \<and> a \<le> hi"
    if u1: "\<forall>e \<in> set (events d). v \<notin> set (snd e)"
      and u2: "\<forall>e \<in> set (spans d). snd e = v \<longrightarrow> fst e = (a, b)"
  proof
    assume "v \<in> set (active_at_span d (lo, hi))"
    then have "v \<in> set (filter_span_from_span d (lo, hi))"
      using u1 by (auto simp: active_at_span_def set_filter_event_from_span)
    then obtain k where k: "(k, v) \<in> set (spans d)" "span_selected (lo, hi) k"
      by (auto simp: set_filter_span_from_span)
    from k(1) u2 have "k = (a, b)" by fastforce
    with k(2) sel show "lo \<le> b \<and> a \<le> hi" by simp
  next
    assume "lo \<le> b \<and> a \<le> hi"
    with incl show "v \<in> set (active_at_span d (lo, hi))" by simp
  qed
  have c1: "active_at_span (append_span (10, 20) v IntSpanDict_init) (20, 30) = [v]"
    by (simp add: active_at_span_def append_span_def IntSpanDict_init_def
        filter_event_from_span_def filter_span_from_span_def span_selected_def)
  have c2: "active_at_span (append_span (10, 20) v IntSpanDict_init) (21, 30) = []"
    by (simp add: active_at_span_def append_span_def IntSpanDict_init_def
        filter_event_from_span_def filter_span_from_span_def span_selected_def)
  from incl only c1 c2 show ?thesis by blast
qed

text \<open>The theorem at an index holding the span \<open>(10, 20)\<close> and a point event at \<open>25\<close>.\<close>

theorem active_at_span_inclusive_overlap_witness:
  "(7::nat) \<in> set (active_at_span (append_span (10, 20) 7 (append_point 25 3 IntSpanDict_init)) (20, 30))
   \<and> (7::nat) \<notin> set (active_at_span (append_span (10, 20) 7 (append_point 25 3 IntSpanDict_init)) (21, 30))"
  using active_at_span_inclusive_overlap
          [of 10 20 "7::nat" "append_span (10, 20) 7 (append_point 25 3 IntSpanDict_init)" 20 30]
        active_at_span_inclusive_overlap
          [of 10 20 "7::nat" "append_span (10, 20) 7 (append_point 25 3 IntSpanDict_init)" 21 30]
  by (simp add: append_span_def append_point_def IntSpanDict_init_def)

lemma spans_append_point [simp]: "spans (append_point p v d) = spans d"
  by (simp add: append_point_def)

lemma events_append_span [simp]: "events (append_span sp v d) = events d"
  by (simp add: append_span_def)

lemma spans_append_span [simp]: "spans (append_span sp v d) = spans d @ [(sp, v)]"
  by (simp add: append_span_def)

lemma events_append_point [simp]: "events (append_point p v d) = events_append p v (events d)"
  by (simp add: append_point_def)

lemma map_of_events_append:
  "map_of (events_append p v es) =
     (map_of es)(p \<mapsto> (case map_of es p of None \<Rightarrow> [v] | Some vs \<Rightarrow> vs @ [v]))"
  by (induction es) (auto simp: fun_eq_iff)

lemma events_get_append:
  "events_get (events_append p v es) q = (if q = p then events_get es p @ [v] else events_get es q)"
  by (simp add: events_get_def map_of_events_append split: option.splits)

lemma events_get_append_mono:
  "w \<in> set (events_get es q) \<Longrightarrow> w \<in> set (events_get (events_append p v es) q)"
  by (auto simp: events_get_append)

lemma fold_append_point_spans: "spans (fold (\<lambda>v. append_point k v) vs other) = spans other"
  by (induction vs arbitrary: other) simp_all

lemma map_keys_event_spans [simp]: "spans (map_keys_event f e other) = spans other"
  unfolding map_keys_event_def by (rule fold_append_point_spans)

lemma fold_map_keys_event_spans [simp]:
  "spans (fold (map_keys_event f) es other) = spans other"
  by (induction es arbitrary: other) simp_all

lemma fold_append_point_events_mono:
  "w \<in> set (events_get (events other) q)
   \<Longrightarrow> w \<in> set (events_get (events (fold (\<lambda>v. append_point k v) vs other)) q)"
  by (induction vs arbitrary: other) (simp_all add: events_get_append_mono)

lemma map_keys_event_events_mono:
  "w \<in> set (events_get (events other) q)
   \<Longrightarrow> w \<in> set (events_get (events (map_keys_event f e other)) q)"
  unfolding map_keys_event_def by (rule fold_append_point_events_mono)

lemma fold_map_keys_event_events_mono:
  "w \<in> set (events_get (events other) q)
   \<Longrightarrow> w \<in> set (events_get (events (fold (map_keys_event f) es other)) q)"
  by (induction es arbitrary: other) (simp_all add: map_keys_event_events_mono)

lemma map_keys_span_events_mono:
  "w \<in> set (events_get (events other) q)
   \<Longrightarrow> w \<in> set (events_get (events (map_keys_span f e other)) q)"
  unfolding map_keys_span_def by (simp add: Let_def events_get_append_mono)

lemma fold_map_keys_span_events_mono:
  "w \<in> set (events_get (events other) q)
   \<Longrightarrow> w \<in> set (events_get (events (fold (map_keys_span f) xs other)) q)"
  by (induction xs arbitrary: other) (simp_all add: map_keys_span_events_mono)

lemma fold_map_keys_span_collapsed:
  "((a, b), v) \<in> set xs \<Longrightarrow> f a = f b
   \<Longrightarrow> v \<in> set (events_get (events (fold (map_keys_span f) xs other)) (f a))"
proof (induction xs arbitrary: other)
  case Nil
  then show ?case by simp
next
  case (Cons x xs)
  show ?case
  proof (cases "x = ((a, b), v)")
    case True
    have "v \<in> set (events_get (events (map_keys_span f x other)) (f a))"
      using True Cons.prems(2) by (simp add: map_keys_span_def events_get_append)
    then show ?thesis by (simp add: fold_map_keys_span_events_mono)
  next
    case False
    with Cons.prems have "((a, b), v) \<in> set xs" by simp
    from Cons.IH[OF this Cons.prems(2)] show ?thesis by simp
  qed
qed

lemma fold_map_keys_span_spans:
  "spans (fold (map_keys_span f) xs other) =
     spans other @ map (\<lambda>e. ((f (fst (fst e)), f (snd (fst e))), snd e))
                     (filter (\<lambda>e. f (fst (fst e)) \<noteq> f (snd (fst e))) xs)"
  by (induction xs arbitrary: other) (simp_all add: map_keys_span_def Let_def)

text \<open>
  Claim C9: for a stored span \<open>(a, b)\<close> with value \<open>v\<close> and a key transform \<open>mapper\<close>.
  If both ends map to the same key, \<open>v\<close> is among the point events of the result at that
  key and the result holds no span \<open>(mapper a, mapper b)\<close> for it; if they map to
  different keys, the result holds the span \<open>(mapper a, mapper b)\<close> with \<open>v\<close>. No span of
  the result has equal ends.
\<close>

theorem map_keys_collapsed_span_is_point:
  assumes "((a, b), v) \<in> set (spans d)"
  shows "(mapper a = mapper b \<longrightarrow>
            v \<in> set (events_get (events (map_keys mapper d)) (mapper a))
            \<and> ((mapper a, mapper b), v) \<notin> set (spans (map_keys mapper d)))
       \<and> (mapper a \<noteq> mapper b \<longrightarrow>
            ((mapper a, mapper b), v) \<in> set (spans (map_keys mapper d)))
       \<and> list_all (\<lambda>e. fst (fst e) \<noteq> snd (fst e)) (spans (map_keys mapper d))"
proof -
  have sp: "spans (map_keys mapper d) =
      map (\<lambda>e. ((mapper (fst (fst e)), mapper (snd (fst e))), snd e))
          (filter (\<lambda>e. mapper (fst (fst e)) \<noteq> mapper (snd (fst e))) (spans d))"
    by (simp add: map_keys_def fold_map_keys_span_spans IntSpanDict_init_def)
  have nz: "list_all (\<lambda>e. fst (fst e) \<noteq> snd (fst e)) (spans (map_keys mapper d))"
    by (simp add: sp list_all_iff)
  have pt: "v \<in> set (events_get (events (map_keys mapper d)) (mapper a))"
    if "mapper a = mapper b"
    unfolding map_keys_def
    by (rule fold_map_keys_event_events_mono, rule fold_map_keys_span_collapsed[OF assms that])
  have no: "((mapper a, mapper b), v) \<notin> set (spans (map_keys mapper d))" if "mapper a = mapper b"
    using nz that by (auto simp: list_all_iff)
  have st: "((mapper a, mapper b), v) \<in> set (spans (map_keys mapper d))"
    if "mapper a \<noteq> mapper b"
    using assms that by (force simp: sp image_iff)
  from nz pt no st show ?thesis by blast
qed

text \<open>
  The theorem at an index with the spans \<open>(11, 19)\<close> and \<open>(20, 45)\<close>, mapped by
  \<open>t div 10\<close>: the first becomes the point event at \<open>1\<close>, the second the span \<open>(2, 4)\<close>.
\<close>

theorem map_keys_collapsed_span_is_point_witness:
  "events (map_keys (\<lambda>t. t div 10) (append_span (20, 45) (2::nat) (append_span (11, 19) 1 IntSpanDict_init)))
     = [(1, [1])]
   \<and> spans (map_keys (\<lambda>t. t div 10) (append_span (20, 45) (2::nat) (append_span (11, 19) 1 IntSpanDict_init)))
     = [((2, 4), 2)]"
  using map_keys_collapsed_span_is_point
          [of 11 19 "1::nat" "append_span (20, 45) 2 (append_span (11, 19) 1 IntSpanDict_init)"
              "\<lambda>t. t div 10"]
  by (simp add: map_keys_def map_keys_span_def map_keys_event_def IntSpanDict_init_def
      append_span_def append_point_def)

section \<open>The bounding box at a point of interest\<close>

lemma events_nonempty_init: "events_nonempty IntSpanDict_init"
  by (simp add: events_nonempty_def IntSpanDict_init_def)

lemma events_append_nonempty:
  "list_all (\<lambda>e. snd e \<noteq> []) es \<Longrightarrow> list_all (\<lambda>e. snd e \<noteq> []) (events_append p v es)"
  by (induction es) auto

lemma events_nonempty_append_point:
  "events_nonempty d \<Longrightarrow> events_nonempty (append_point p v d)"
  by (simp add: events_nonempty_def events_append_nonempty)

lemma events_nonempty_append_span:
  "events_nonempty d \<Longrightarrow> events_nonempty (append_span sp v d)"
  by (simp add: events_nonempty_def)

lemma spans_ordered_init: "spans_ordered IntSpanDict_init"
  by (simp add: spans_ordered_def IntSpanDict_init_def)

lemma spans_ordered_append_point:
  "spans_ordered d \<Longrightarrow> spans_ordered (append_point p v d)"
  by (simp add: spans_ordered_def)

lemma spans_ordered_append_span:
  "spans_ordered d \<Longrightarrow> fst sp \<le> snd sp \<Longrightarrow> spans_ordered (append_span sp v d)"
  by (simp add: spans_ordered_def)

lemma events_get_nonempty:
  "list_all (\<lambda>e. snd e \<noteq> []) es \<Longrightarrow> p \<in> fst ` set es \<Longrightarrow> events_get es p \<noteq> []"
  by (induction es) (auto simp: events_get_def)

lemma active_at_point_nonempty:
  assumes "events_nonempty d" and "spans_ordered d" and "p \<in> set (points_of_interest d)"
  shows "active_at_point d p \<noteq> []"
proof -
  from assms(3) consider "p \<in> fst ` set (events d)"
    | e where "e \<in> set (spans d)" "p = fst (fst e) \<or> p = snd (fst e)"
    by (auto simp: points_of_interest_eval set_span_keys_flat)
  then show ?thesis
  proof cases
    case 1
    with assms(1) have "events_get (events d) p \<noteq> []"
      by (simp add: events_nonempty_def events_get_nonempty)
    then show ?thesis by (simp add: active_at_point_def)
  next
    case 2
    from assms(2) 2(1) have "fst (fst e) \<le> snd (fst e)"
      by (auto simp: spans_ordered_def list_all_iff)
    with 2 have "snd e \<in> set (filter_span_from_point d p)"
      by (force simp: filter_span_from_point_def image_iff case_prod_beta)
    then show ?thesis by (auto simp: active_at_point_def)
  qed
qed

lemma initial_window_nonempty: "active \<noteq> [] \<Longrightarrow> \<exists>iw. initial_window active = Inr iw"
  by (cases active) (simp_all add: initial_window_def)

text \<open>
  Claim C8, as the code has it: \<open>min\<close> and \<open>max\<close> over an empty active set raise
  \<open>ValueError\<close>; nothing skips the step. In an index with no empty event list and with
  every span's start not after its end, the set of entries active at a point of interest
  is never empty, so there the box is computed.
\<close>

theorem bounding_box_on_ordered_spans:
  assumes "events_nonempty d" and "spans_ordered d" and "p \<in> set (points_of_interest d)"
  shows "active_points_of_interest d p \<noteq> []
       \<and> (\<exists>iw. initial_window (active_points_of_interest d p) = Inr iw)
       \<and> initial_window [] = Inl ValueError"
proof -
  have "active_at_point d p \<noteq> []" using assms by (rule active_at_point_nonempty)
  then have ne: "active_points_of_interest d p \<noteq> []"
    unfolding active_points_of_interest_def
    by (metis length_sort length_0_conv)
  moreover from ne have "\<exists>iw. initial_window (active_points_of_interest d p) = Inr iw"
    by (rule initial_window_nonempty)
  moreover have "initial_window [] = Inl ValueError" by (simp add: initial_window_def)
  ultimately show ?thesis by blast
qed

text \<open>
  The theorem at the end \<open>9\<close> of the span \<open>(5, 9)\<close>, in an index that also holds a
  point event at \<open>5\<close>.
\<close>

theorem bounding_box_on_ordered_spans_witness:
  "initial_window (active_points_of_interest
      (append_span (5, 9) \<lparr>coord_x = 100, coord_y = 200, start_time = 5, new_combo = 0, is_kiai = False\<rparr>
         (append_point 5 \<lparr>coord_x = 30, coord_y = 40, start_time = 5, new_combo = 1, is_kiai = False\<rparr>
            IntSpanDict_init)) 9)
   = Inr ((100, 100), (200, 200))"
  using bounding_box_on_ordered_spans
    [of "append_span (5, 9) \<lparr>coord_x = 100, coord_y = 200, start_time = 5, new_combo = 0, is_kiai = False\<rparr>
         (append_point 5 \<lparr>coord_x = 30, coord_y = 40, start_time = 5, new_combo = 1, is_kiai = False\<rparr>
            IntSpanDict_init)" 9]
  by (simp add: events_nonempty_def spans_ordered_def points_of_interest_eval span_keys_flat_def
      IntSpanDict_init_def append_point_def append_span_def initial_window_def
      active_points_of_interest_def active_at_point_def events_get_def filter_span_from_point_def)

text \<open>
  The claim as the specification states it fails on the index holding the single span
  \<open>(9, 5)\<close> (a hold object whose end time is before its start): \<open>5\<close> is a point of
  interest, nothing is active there, and the computation of the box raises.
\<close>

theorem bounding_box_empty_active_set_counterexample:
  "5 \<in> set (points_of_interest
        (append_span (9, 5) \<lparr>coord_x = 100, coord_y = 200, start_time = 9, new_combo = 0, is_kiai = False\<rparr>
           IntSpanDict_init))
   \<and> active_at_point
        (append_span (9, 5) \<lparr>coord_x = 100, coord_y = 200, start_time = 9, new_combo = 0, is_kiai = False\<rparr>
           IntSpanDict_init) 5 = []
   \<and> initial_window (active_points_of_interest
        (append_span (9, 5) \<lparr>coord_x = 100, coord_y = 200, start_time = 9, new_combo = 0, is_kiai = False\<rparr>
           IntSpanDict_init) 5) = Inl ValueError"
  by (simp add: points_of_interest_eval span_keys_flat_def
      IntSpanDict_init_def append_span_def initial_window_def
      active_points_of_interest_def active_at_point_def events_get_def filter_span_from_point_def)

section \<open>Cut directions\<close>

text \<open>
  \<open>from_movement\<close> of \<open>src/sabertools.py\<close> never returns one of the three downward
  directions; the copy in \<open>src/osu2saber/sabertools.py\<close> returns the compass direction of
  the signs.
\<close>

lemma from_movement_never_down:
  "from_movement x y \<noteq> Down \<and> from_movement x y \<noteq> DownLeft \<and> from_movement x y \<noteq> DownRight"
  by (simp add: from_movement_def)

lemma from_movement_pkg_signs:
  "from_movement_pkg x y =
     (if y > 0 then (if x < 0 then UpLeft else if x > 0 then UpRight else Up)
      else if y < 0 then (if x < 0 then DownLeft else if x > 0 then DownRight else Down)
      else (if x < 0 then Left else if x > 0 then Right else Any))"
  by (simp add: from_movement_pkg_def)

text \<open>
  Claim C5 at the inputs where the code leaves it: for a movement with \<open>y < 0\<close>,
  \<open>from_movement\<close> of \<open>src/sabertools.py\<close> returns \<open>Up\<close>, \<open>UpLeft\<close> and \<open>UpRight\<close>
  where the claim names \<open>Down\<close>, \<open>DownLeft\<close> and \<open>DownRight\<close>; the copy of the function in
  \<open>src/osu2saber/sabertools.py\<close> returns the directions the claim names.
\<close>

theorem from_movement_negative_y:
  "from_movement 0 0 = Any
   \<and> from_movement 0 (-1) = Up \<and> from_movement (-1) (-1) = UpLeft \<and> from_movement 1 (-1) = UpRight
   \<and> from_movement_pkg 0 (-1) = Down \<and> from_movement_pkg (-1) (-1) = DownLeft
   \<and> from_movement_pkg 1 (-1) = DownRight"
  by (simp add: from_movement_def from_movement_pkg_def)

lemma d_sliders_emit_record:
  "d_sliders (emit_record c d) = d_sliders d @ (if is_arc c then [slider_of c] else [])"
  by (simp add: emit_record_def Let_def)

lemma build_notes_sliders:
  "build_notes cc ids d0 = Inr d
   \<Longrightarrow> list_all (\<lambda>sl. tailCutDirection sl = opposite (headCutDirection sl)) (d_sliders d0)
   \<Longrightarrow> list_all (\<lambda>sl. tailCutDirection sl = opposite (headCutDirection sl)) (d_sliders d)"
proof (induction ids arbitrary: d0)
  case Nil
  then show ?case by simp
next
  case (Cons cid ids)
  from Cons.prems(1) obtain c where c: "map_of cc cid = Some c"
    by (auto split: option.splits)
  with Cons.prems(1) have "build_notes cc ids (emit_record c d0) = Inr d" by simp
  moreover have "list_all (\<lambda>sl. tailCutDirection sl = opposite (headCutDirection sl))
      (d_sliders (emit_record c d0))"
    using Cons.prems(2) by (simp add: d_sliders_emit_record slider_of_def)
  ultimately show ?case by (rule Cons.IH)
qed

text \<open>
  Claim C7: \<open>opposite\<close> is an involution (on the eight concrete directions and on
  \<open>Any\<close>), \<open>opposite(Any)\<close> is \<open>Any\<close>, and every slider that \<open>build_coreography\<close>
  emits has the opposite of its head cut direction as its tail cut direction.
\<close>

theorem arc_tail_is_opposite_of_head:
  "opposite (opposite d) = d \<and> opposite Any = Any
   \<and> (build_coreography float_duration s breaks = Inr difficulty \<longrightarrow>
        (\<forall>sl \<in> set (d_sliders difficulty). tailCutDirection sl = opposite (headCutDirection sl)))"
proof -
  have "opposite (opposite d) = d" by (cases d) simp_all
  moreover have "\<forall>sl \<in> set (d_sliders difficulty). tailCutDirection sl = opposite (headCutDirection sl)"
    if b: "build_coreography float_duration s breaks = Inr difficulty"
  proof -
    from b obtain d1 where d1: "build_notes (coreography_contents s) (coreography_ids s)
        \<lparr>d_notes = [], d_sliders = [], d_obstacles = []\<rparr> = Inr d1"
      and eq: "difficulty = d1\<lparr>d_obstacles := d_obstacles d1
                 @ concat (map (break_obstacles float_duration) breaks)\<rparr>"
      by (auto simp: build_coreography_def split: sum.splits)
    from build_notes_sliders[OF d1]
    have "list_all (\<lambda>sl. tailCutDirection sl = opposite (headCutDirection sl)) (d_sliders d1)"
      by simp
    with eq show ?thesis by (simp add: list_all_iff)
  qed
  ultimately show ?thesis by simp
qed

text \<open>
  The theorem at a simulator that recorded one arc (identity \<open>1\<close>, cut \<open>Down\<close>) and one
  note: the single slider has head \<open>Down\<close> and tail \<open>Up\<close>.
\<close>

theorem arc_tail_is_opposite_of_head_witness:
  "\<exists>difficulty.
     build_coreography (\<lambda>s e. e - s)
       (simulator_init\<lparr>coreography_ids := [1, 2],
          coreography_contents :=
            [(1, \<lparr>beat_start = 0, beat_finish = 2,
                  coordinate = \<lparr>index = LightLeft, layer = Middle\<rparr>,
                  coordinate_end = \<lparr>index = LightRight, layer = Middle\<rparr>,
                  obstacle_type = LeftRedNote, cut_direction = Down\<rparr>),
             (2, \<lparr>beat_start = 2, beat_finish = 2,
                  coordinate = \<lparr>index = LightRight, layer = Middle\<rparr>,
                  coordinate_end = \<lparr>index = LightRight, layer = Middle\<rparr>,
                  obstacle_type = LeftRedNote, cut_direction = Right\<rparr>)]\<rparr>) [] = Inr difficulty
     \<and> map headCutDirection (d_sliders difficulty) = [Down]
     \<and> map tailCutDirection (d_sliders difficulty) = [Up]
     \<and> opposite (opposite UpLeft) = UpLeft"
  using arc_tail_is_opposite_of_head
    [of UpLeft "\<lambda>s e. e - s" "simulator_init\<lparr>coreography_ids := [1, 2],
          coreography_contents :=
            [(1, \<lparr>beat_start = 0, beat_finish = 2,
                  coordinate = \<lparr>index = LightLeft, layer = Middle\<rparr>,
                  coordinate_end = \<lparr>index = LightRight, layer = Middle\<rparr>,
                  obstacle_type = LeftRedNote, cut_direction = Down\<rparr>),
             (2, \<lparr>beat_start = 2, beat_finish = 2,
                  coordinate = \<lparr>index = LightRight, layer = Middle\<rparr>,
                  coordinate_end = \<lparr>index = LightRight, layer = Middle\<rparr>,
                  obstacle_type = LeftRedNote, cut_direction = Right\<rparr>)]\<rparr>" "[]"]
  by (simp add: build_coreography_def simulator_init_def emit_record_def note_of_def
      slider_of_def is_arc_def)

section \<open>The simulator of sabertools.py: what move_to never changes\<close>

lemma sim_ok_init: "sim_ok simulator_init"
  by (simp add: sim_ok_def simulator_init_def hand_ok_def on_grid_def no_hand_busy_def)

lemma adapt_ok:
  "hdisp h = 0 \<or> hdisp h = 1 \<Longrightarrow> \<exists>c. adapt h pos = Inr c \<and> on_grid c"
  by (cases pos) (auto simp: adapt_def NoteLineIndexEnum_of_def NoteLineLayerEnum_of_def on_grid_def)

lemma if_follow_ok: "on_grid c \<Longrightarrow> \<exists>c'. if_follow c d = Inr c'"
  by (cases "index c"; cases "layer c"; cases d)
     (simp_all add: on_grid_def if_follow_def NoteLineIndexEnum_of_def NoteLineLayerEnum_of_def)

lemma check_cut_ok:
  assumes "hand_ok h"
  shows "\<exists>c. check_cut h st fi pos t = Inr c \<and> on_grid (coordinate c)
            \<and> beat_start c = st \<and> beat_finish c = fi"
proof -
  from assms obtain cp where cp: "adapt h pos = Inr cp" "on_grid cp"
    using adapt_ok[of h pos] by (auto simp: hand_ok_def)
  from assms obtain c' where c': "if_follow (hand_coordinate h) (direction h) = Inr c'"
    using if_follow_ok[of "hand_coordinate h" "direction h"] by (auto simp: hand_ok_def)
  show ?thesis
    by (simp add: check_cut_def cp c' Let_def)
qed

text \<open>
  Assigning a point to a hand leaves \<open>coreography_hand_ids\<close> and
  \<open>last_coreography_hand_ids\<close> as they are, and the first loop of \<open>move_to\<close> only ever
  writes \<open>-1\<close> into \<open>coreography_hand_ids\<close>.
\<close>

lemma assign_hand_hand_ids:
  "assign_hand now poa h s = Inr s'
   \<Longrightarrow> coreography_hand_ids s' = coreography_hand_ids s
     \<and> last_coreography_hand_ids s' = last_coreography_hand_ids s"
  by (auto simp: assign_hand_def Let_def split: sum.splits)

lemma assign_hands_hand_ids:
  "assign_hands now poa hs s = Inr s'
   \<Longrightarrow> coreography_hand_ids s' = coreography_hand_ids s
     \<and> last_coreography_hand_ids s' = last_coreography_hand_ids s"
proof (induction hs arbitrary: s)
  case Nil
  then show ?case by simp
next
  case (Cons h hs)
  then show ?case by (auto split: sum.splits dest!: assign_hand_hand_ids)
qed

lemma move_loop_hand_ids:
  "move_loop now both pref poas s = Inr s'
   \<Longrightarrow> coreography_hand_ids s' = coreography_hand_ids s
     \<and> last_coreography_hand_ids s' = last_coreography_hand_ids s"
proof (induction poas arbitrary: s)
  case Nil
  then show ?case by simp
next
  case (Cons poa rest)
  show ?case
  proof (cases "now \<noteq> fst (fst (snd poa)) \<and> now \<noteq> snd (fst (snd poa))")
    case True
    with Cons show ?thesis by simp
  next
    case False
    with Cons.prems obtain av where av: "available_hands now s = Inr av"
      by (auto split: sum.splits)
    show ?thesis
    proof (cases "length av < 1")
      case True
      with Cons.prems False av show ?thesis by simp
    next
      case nonempty: False
      with Cons.prems False av obtain ah s1 where
        s1: "assign_hands now poa ah s = Inr s1" and
        rest: "move_loop now both pref rest s1 = Inr s'"
        by (auto split: sum.splits if_splits)
      from assign_hands_hand_ids[OF s1] Cons.IH[OF rest] show ?thesis by simp
    qed
  qed
qed

lemma free_hand_hand_ids:
  "free_hand now h s = Inr s'
   \<Longrightarrow> coreography_hand_ids s' = coreography_hand_ids s
     \<or> coreography_hand_ids s' = (coreography_hand_ids s)[h := -1]"
  by (auto simp: free_hand_def Let_def split: sum.splits option.splits if_splits)

lemma free_hands_hand_ids:
  assumes "free_hands now s = Inr s'"
  shows "set (coreography_hand_ids s') \<subseteq> insert (-1) (set (coreography_hand_ids s))"
proof -
  from assms obtain s1 where a: "free_hand now 0 s = Inr s1" and b: "free_hand now 1 s1 = Inr s'"
    by (auto simp: free_hands_def split: sum.splits)
  have "set (coreography_hand_ids s1) \<subseteq> insert (-1) (set (coreography_hand_ids s))"
    using free_hand_hand_ids[OF a] set_update_subset_insert[of "coreography_hand_ids s" 0 "-1"]
    by auto
  moreover have "set (coreography_hand_ids s') \<subseteq> insert (-1) (set (coreography_hand_ids s1))"
    using free_hand_hand_ids[OF b] set_update_subset_insert[of "coreography_hand_ids s1" 1 "-1"]
    by auto
  ultimately show ?thesis by blast
qed

lemma move_to_hand_ids:
  assumes "move_to now both pref poas s = Inr s'"
  shows "set (coreography_hand_ids s') \<subseteq> insert (-1) (set (coreography_hand_ids s))"
proof -
  from assms obtain s1 where a: "free_hands now s = Inr s1"
    and b: "move_loop now both pref (sorted_poas poas) s1 = Inr s'"
    by (auto simp: move_to_def split: sum.splits)
  from free_hands_hand_ids[OF a] move_loop_hand_ids[OF b] show ?thesis by simp
qed

lemma free_hands_no_hand_busy: "no_hand_busy s \<Longrightarrow> free_hands now s = Inr s"
  by (simp add: no_hand_busy_def free_hands_def free_hand_def list_get_def)

lemma available_hands_no_hand_busy:
  "no_hand_busy s \<Longrightarrow> available_hands now s = Inr [LeftRedNote, RightBlueNote]"
  by (simp add: no_hand_busy_def available_hands_def NoteTypeEnum_of_def)

lemma move_to_no_hand_busy:
  "no_hand_busy s \<Longrightarrow> move_to now both pref poas s = Inr s' \<Longrightarrow> no_hand_busy s'"
  using move_loop_hand_ids[of now both pref "sorted_poas poas" s s']
  by (simp add: move_to_def free_hands_no_hand_busy no_hand_busy_def)

lemma run_moves_no_hand_busy:
  "no_hand_busy s \<Longrightarrow> run_moves calls s = Inr s' \<Longrightarrow> no_hand_busy s'"
proof (induction calls arbitrary: s)
  case Nil
  then show ?case by simp
next
  case (Cons c cs)
  from Cons.prems(2) obtain s1 where
    s1: "move_to (fst c) (fst (snd c)) (fst (snd (snd c))) (snd (snd (snd c))) s = Inr s1"
    and r: "run_moves cs s1 = Inr s'"
    by (auto split: sum.splits)
  from move_to_no_hand_busy[OF Cons.prems(1) s1] r show ?case by (rule Cons.IH)
qed

text \<open>The equations that evaluate a call of \<open>move_to\<close> on concrete arguments.\<close>

lemmas sim_eval =
  run_moves.simps move_to_def free_hands_def free_hand_def list_get_def simulator_init_def
  sorted_poas_def poa_key_def move_loop.simps available_hands_def available_from.simps
  NoteTypeEnum_of_def first_preferred_def assign_hands.simps assign_hand_def check_cut_def
  adapt_def NoteLineIndexEnum_of_def NoteLineLayerEnum_of_def check_cut_movement_towards_def
  if_goto_def from_movement_def if_follow_def cut_hand_def is_arc_def Let_def

text \<open>
  Claim C10: after any sequence of \<open>move_to\<close> calls on a fresh simulator that returns,
  both entries of \<open>coreography_hand_ids\<close> are \<open>-1\<close>; so at any time \<open>now\<close> both hands
  are available (the busy-hands branch is not entered) and the first loop of \<open>move_to\<close>
  releases nothing. From any state at all, a call of \<open>move_to\<close> that returns leaves in
  \<open>coreography_hand_ids\<close> only values that were there before, or \<open>-1\<close>.
\<close>

theorem hand_ids_never_written:
  assumes "run_moves calls simulator_init = Inr s"
  shows "coreography_hand_ids s = [-1, -1]
       \<and> available_hands now s = Inr [LeftRedNote, RightBlueNote]
       \<and> free_hands now s = Inr s
       \<and> (move_to now' both pref poas s0 = Inr s1 \<longrightarrow>
            set (coreography_hand_ids s1) \<subseteq> insert (-1) (set (coreography_hand_ids s0)))"
proof -
  have "no_hand_busy simulator_init" by (simp add: no_hand_busy_def simulator_init_def)
  then have nb: "no_hand_busy s" using assms by (rule run_moves_no_hand_busy)
  then have "coreography_hand_ids s = [-1, -1]" by (simp add: no_hand_busy_def)
  with nb show ?thesis
    by (simp add: available_hands_no_hand_busy free_hands_no_hand_busy move_to_hand_ids)
qed

text \<open>
  The theorem at a run of two calls, the first in single-hand mode with three points (one
  of them an arc), the second in both-hands mode; and, for its last part, at the call
  \<open>move_to(3, \<dots>)\<close> on the state whose left hand is marked busy with the arc \<open>7\<close>.
\<close>

theorem hand_ids_never_written_witness:
  "map_sum id coreography_hand_ids
     (run_moves [(0, False, (LeftRedNote, RightBlueNote),
                   [(1, (0, 0), MidLft), (2, (0, 0), MidCtr), (3, (0, 2), MidRgt)]),
                 (1, True, (RightBlueNote, LeftRedNote), [(4, (1, 3), TopLft)])] simulator_init)
   = Inr [-1, -1]
   \<and> coreography_hand_ids sim_left_busy = [7, -1]
   \<and> map_sum id coreography_hand_ids
         (move_to 3 False (LeftRedNote, RightBlueNote) [] sim_left_busy) = Inr [-1, -1]"
proof -
  obtain s where s: "run_moves [(0, False, (LeftRedNote, RightBlueNote),
                   [(1, (0, 0), MidLft), (2, (0, 0), MidCtr), (3, (0, 2), MidRgt)]),
                 (1, True, (RightBlueNote, LeftRedNote), [(4, (1, 3), TopLft)])] simulator_init
        = Inr s"
    by (simp add: sim_eval)
  obtain s1 where s1: "move_to 3 False (LeftRedNote, RightBlueNote) [] sim_left_busy = Inr s1"
    and h1: "coreography_hand_ids s1 = [-1, -1]"
    by (simp add: sim_eval sim_left_busy_def arc_record_def)
  have h0: "coreography_hand_ids sim_left_busy = [7, -1]"
    by (simp add: sim_left_busy_def simulator_init_def)
  from hand_ids_never_written[OF s, of 0 3 False "(LeftRedNote, RightBlueNote)" "[]" sim_left_busy s1]
  show ?thesis by (simp only: s s1 h0 h1 map_sum.simps id_apply simp_thms)
qed

section \<open>The simulator of sabertools.py: what move_to records\<close>

lemma hand_ok_nth: "sim_ok s \<Longrightarrow> i < 2 \<Longrightarrow> hand_ok (hands s ! i)"
  by (simp add: sim_ok_def list_all_length)

lemma assign_hand_ok:
  assumes ok: "sim_ok s" and h: "h = LeftRedNote \<or> h = RightBlueNote"
  shows "\<exists>s'. assign_hand now poa h s = Inr s' \<and> sim_ok s'
            \<and> coreography_ids s' = coreography_ids s @ [fst poa]"
proof -
  define i where "i = nat (NoteTypeEnum_value h)"
  from h have i: "i < 2" by (auto simp: i_def)
  from ok i have lg: "list_get (last_coreography_hand_ids s) i = Inr (-1)"
    by (auto simp: sim_ok_def no_hand_busy_def list_get_def less_2_cases_iff)
  from ok i have hg: "list_get (hands s) i = Inr (hands s ! i)"
    by (simp add: sim_ok_def list_get_def)
  from hand_ok_nth[OF ok i] have hok: "hand_ok (hands s ! i)" .
  from check_cut_ok[OF hok] obtain c where
    c: "check_cut (hands s ! i) (fst (fst (snd poa))) (snd (fst (snd poa))) (snd (snd poa)) h = Inr c"
       "on_grid (coordinate c)"
    by blast
  have hok': "hand_ok (cut_hand (hands s ! i) now c)"
    using hok c(2) by (simp add: hand_ok_def cut_hand_def)
  have la: "list_all hand_ok ((hands s)[i := cut_hand (hands s ! i) now c])"
    using ok hok' by (auto simp: sim_ok_def list_all_iff dest!: subsetD[OF set_update_subset_insert])
  have "\<exists>s'. assign_hand now poa h s = Inr s'
          \<and> hands s' = (hands s)[i := cut_hand (hands s ! i) now c]
          \<and> coreography_hand_ids s' = coreography_hand_ids s
          \<and> last_coreography_hand_ids s' = last_coreography_hand_ids s
          \<and> coreography_ids s' = coreography_ids s @ [fst poa]"
    unfolding assign_hand_def Let_def i_def[symmetric] lg hg by (simp add: c(1))
  with ok la show ?thesis by (auto simp: sim_ok_def no_hand_busy_def)
qed

lemma assign_hands_ok:
  "sim_ok s \<Longrightarrow> list_all (\<lambda>h. h = LeftRedNote \<or> h = RightBlueNote) hs
   \<Longrightarrow> \<exists>s'. assign_hands now poa hs s = Inr s' \<and> sim_ok s'
          \<and> coreography_ids s' = coreography_ids s @ replicate (length hs) (fst poa)"
proof (induction hs arbitrary: s)
  case Nil
  then show ?case by simp
next
  case (Cons h hs)
  from Cons.prems(2) have h: "h = LeftRedNote \<or> h = RightBlueNote"
    and hs: "list_all (\<lambda>h. h = LeftRedNote \<or> h = RightBlueNote) hs" by simp_all
  from assign_hand_ok[OF Cons.prems(1) h] obtain s1 where
    s1: "assign_hand now poa h s = Inr s1" "sim_ok s1"
        "coreography_ids s1 = coreography_ids s @ [fst poa]" by blast
  from Cons.IH[OF s1(2) hs] obtain s' where
    s': "assign_hands now poa hs s1 = Inr s'" "sim_ok s'"
        "coreography_ids s' = coreography_ids s1 @ replicate (length hs) (fst poa)" by blast
  show ?case using s1 s' by (simp add: replicate_app_Cons_same)
qed

lemma first_preferred_ok:
  "names_hand pref
   \<Longrightarrow> \<exists>h. first_preferred pref [LeftRedNote, RightBlueNote] = Inr h
          \<and> (h = LeftRedNote \<or> h = RightBlueNote)"
  by (auto simp: first_preferred_def names_hand_def)

lemma move_loop_due:
  assumes "due now poa" and "available_hands now s = Inr [LeftRedNote, RightBlueNote]"
  shows "move_loop now both pref (poa # rest) s =
     (case (if \<not> both
            then (case first_preferred pref [LeftRedNote, RightBlueNote] of
                    Inl e \<Rightarrow> Inl e
                  | Inr h \<Rightarrow> Inr [h])
            else Inr [LeftRedNote, RightBlueNote]) of
        Inl e \<Rightarrow> Inl e
      | Inr active_hands \<Rightarrow>
         (case assign_hands now poa active_hands s of
            Inl e \<Rightarrow> Inl e
          | Inr s1 \<Rightarrow> move_loop now both pref rest s1))"
proof -
  from assms(1) have nd: "(now \<noteq> fst (fst (snd poa)) \<and> now \<noteq> snd (fst (snd poa))) = False"
    by (simp add: due_def)
  show ?thesis
    by (subst move_loop.simps) (simp only: nd if_False assms(2) sum.case, simp)
qed

lemma move_loop_not_due:
  "\<not> due now poa \<Longrightarrow> move_loop now both pref (poa # rest) s = move_loop now both pref rest s"
  by (simp add: due_def)

text \<open>
  From a state in which no hand is marked busy, the loop of \<open>move_to\<close> does not raise and
  records every due point: once in single-hand mode, twice (once per hand) in both-hands
  mode.
\<close>

lemma move_loop_ok:
  assumes pref: "both \<or> names_hand pref"
  shows "sim_ok s \<Longrightarrow> \<exists>s'. move_loop now both pref poas s = Inr s' \<and> sim_ok s'
            \<and> coreography_ids s' = coreography_ids s
                 @ concat (map (\<lambda>poa. replicate (if both then 2 else 1) (fst poa))
                               (filter (due now) poas))"
proof (induction poas arbitrary: s)
  case Nil
  then show ?case by simp
next
  case (Cons poa rest)
  show ?case
  proof (cases "due now poa")
    case False
    have "move_loop now both pref (poa # rest) s = move_loop now both pref rest s"
      using False by (rule move_loop_not_due)
    moreover have "filter (due now) (poa # rest) = filter (due now) rest"
      using False by simp
    ultimately show ?thesis using Cons.IH[OF Cons.prems] by (simp only:)
  next
    case True
    from Cons.prems have av: "available_hands now s = Inr [LeftRedNote, RightBlueNote]"
      by (simp add: sim_ok_def available_hands_no_hand_busy)
    obtain hs where
      hs: "(if \<not> both
            then (case first_preferred pref [LeftRedNote, RightBlueNote] of
                    Inl e \<Rightarrow> Inl e
                  | Inr h \<Rightarrow> Inr [h])
            else Inr [LeftRedNote, RightBlueNote]) = Inr hs"
          "list_all (\<lambda>h. h = LeftRedNote \<or> h = RightBlueNote) hs"
          "length hs = (if both then 2 else 1)"
    proof (cases both)
      case True
      then show ?thesis using that[of "[LeftRedNote, RightBlueNote]"] by simp
    next
      case False
      with pref have "names_hand pref" by simp
      from first_preferred_ok[OF this] obtain h where
        "first_preferred pref [LeftRedNote, RightBlueNote] = Inr h"
        "h = LeftRedNote \<or> h = RightBlueNote" by blast
      with False show ?thesis using that[of "[h]"] by simp
    qed
    from assign_hands_ok[OF Cons.prems hs(2)] obtain s1 where
      s1: "assign_hands now poa hs s = Inr s1" "sim_ok s1"
          "coreography_ids s1 = coreography_ids s @ replicate (length hs) (fst poa)" by blast
    from Cons.IH[OF s1(2)] obtain s' where
      s': "move_loop now both pref rest s1 = Inr s'" "sim_ok s'"
          "coreography_ids s' = coreography_ids s1
             @ concat (map (\<lambda>poa. replicate (if both then 2 else 1) (fst poa))
                           (filter (due now) rest))" by blast
    have "move_loop now both pref (poa # rest) s = Inr s'"
      by (simp only: move_loop_due[OF True av] hs(1) sum.case s1(1) s'(1))
    with s' s1(3) hs(3) True show ?thesis by simp
  qed
qed

lemma move_to_ok:
  assumes "sim_ok s" and "usable_call c"
  shows "\<exists>s'. move_to (fst c) (fst (snd c)) (fst (snd (snd c))) (snd (snd (snd c))) s = Inr s'
            \<and> sim_ok s' \<and> coreography_ids s' = coreography_ids s @ recorded_ids c"
proof -
  from assms(2) have pref: "fst (snd c) \<or> names_hand (fst (snd (snd c)))"
    by (simp add: usable_call_def)
  from assms(1) have fr: "free_hands (fst c) s = Inr s"
    by (simp add: sim_ok_def free_hands_no_hand_busy)
  from move_loop_ok[OF pref assms(1), of "fst c" "sorted_poas (snd (snd (snd c)))"]
  show ?thesis by (simp add: move_to_def fr recorded_ids_def)
qed

lemma run_moves_ok:
  "sim_ok s \<Longrightarrow> list_all usable_call calls
   \<Longrightarrow> \<exists>s'. run_moves calls s = Inr s' \<and> sim_ok s'
          \<and> coreography_ids s' = coreography_ids s @ concat (map recorded_ids calls)"
proof (induction calls arbitrary: s)
  case Nil
  then show ?case by simp
next
  case (Cons c cs)
  from Cons.prems(2) have c: "usable_call c" and cs: "list_all usable_call cs"
    by simp_all
  from move_to_ok[OF Cons.prems(1) c] obtain s1 where
    s1: "move_to (fst c) (fst (snd c)) (fst (snd (snd c))) (snd (snd (snd c))) s = Inr s1"
        "sim_ok s1" "coreography_ids s1 = coreography_ids s @ recorded_ids c" by blast
  from Cons.IH[OF s1(2) cs] obtain s' where
    s': "run_moves cs s1 = Inr s'" "sim_ok s'"
        "coreography_ids s' = coreography_ids s1 @ concat (map recorded_ids cs)" by blast
  show ?case using s1 s' by simp
qed

lemma recorded_ids_single: "single_hand_call c \<Longrightarrow> recorded_ids c = due_ids c"
  by (simp add: single_hand_call_def recorded_ids_def due_ids_def map_replicate_const
      flip: map_concat)

text \<open>
  What a run of single-hand calls on a fresh simulator records in \<open>src/sabertools.py\<close>:
  no call raises, and \<open>coreography_ids\<close> is, call after call, the list of the identities
  of the points due at that call, whether or not an identity was recorded before.
\<close>

lemma single_hand_runs_record_due_points:
  assumes "list_all single_hand_call calls"
  shows "\<exists>s. run_moves calls simulator_init = Inr s
            \<and> length (hands s) = 2
            \<and> coreography_ids s = concat (map due_ids calls)"
proof -
  from assms have u: "list_all usable_call calls"
    by (simp add: list_all_iff single_hand_call_def usable_call_def)
  from assms have "map recorded_ids calls = map due_ids calls"
    by (simp add: list_all_iff recorded_ids_single)
  with run_moves_ok[OF sim_ok_init u] show ?thesis
    by (auto simp: simulator_init_def sim_ok_def)
qed

section \<open>Releasing a hand\<close>

text \<open>
  What the first loop of \<open>move_to\<close> does to a hand that serves a record \<open>c\<close>. In
  \<open>src/sabertools.py\<close> the hand is released exactly when \<open>beat_finish c < now\<close>, and a
  released hand that was on an arc has its direction turned to the opposite. In
  \<open>src/osu2saber/sabertools.py\<close> the hand is released exactly when \<open>now \<ge> time_finish\<close>,
  and its direction is never changed.
\<close>

lemma free_hand_release:
  assumes "hand < length (coreography_hand_ids s)" and "coreography_hand_ids s ! hand = cid"
    and "cid \<noteq> -1" and "map_of (coreography_contents s) cid = Some c"
    and "hand < length (last_coreography_hand_ids s)" and "hand < length (hands s)"
  shows "\<exists>s'. free_hand now hand s = Inr s'
          \<and> (coreography_hand_ids s' ! hand = -1 \<longleftrightarrow> beat_finish c < now)
          \<and> on_arc (hands s' ! hand) = (on_arc (hands s ! hand) \<and> \<not> beat_finish c < now)
          \<and> direction (hands s' ! hand) =
              (if beat_finish c < now \<and> on_arc (hands s ! hand)
               then opposite (direction (hands s ! hand)) else direction (hands s ! hand))"
  using assms by (simp add: free_hand_def list_get_def Let_def)

lemma free_hand_pkg_release:
  assumes "hand < length (coreography_hand_ids s)" and "coreography_hand_ids s ! hand = cid"
    and "cid \<noteq> -1" and "map_of (coreography_contents s) cid = Some c"
    and "hand < length (last_coreography_hand_ids s)" and "hand < length (hands s)"
  shows "\<exists>s'. free_hand_pkg now hand s = Inr s'
          \<and> (coreography_hand_ids s' ! hand = -1 \<longleftrightarrow> now \<ge> beat_finish c)
          \<and> on_arc (hands s' ! hand) = (on_arc (hands s ! hand) \<and> \<not> now \<ge> beat_finish c)
          \<and> direction (hands s' ! hand) = direction (hands s ! hand)"
  using assms by (simp add: free_hand_pkg_def list_get_def Let_def)

text \<open>The equations that evaluate a call of \<open>move_to\<close> of the second copy.\<close>

lemmas sim_eval_pkg =
  run_moves_pkg.simps
  move_to_pkg_def free_hands_pkg_def free_hand_pkg_def list_get_def simulator_init_def
  sorted_poas_def poa_key_def move_loop_pkg.simps available_from_pkg.simps
  NoteTypeEnum_of_def first_preferred_def assign_hands_pkg.simps assign_hand_pkg_def
  check_cut_pkg_def adapt_def NoteLineIndexEnum_of_def NoteLineLayerEnum_of_def
  if_goto_pkg_def from_movement_pkg_def if_follow_pkg_def cut_hand_pkg_def is_arc_def Let_def

text \<open>
  Claim C3 at the inputs where the code leaves it. On a fresh simulator the arc \<open>1\<close>, from
  beat 0 to beat 2, is given to the left hand, and \<open>move_to\<close> is called again at its finish
  time (or after it). With \<open>move_to\<close> of \<open>src/sabertools.py\<close> the hand was never marked
  busy and its on-arc flag stays set. With \<open>move_to\<close> of \<open>src/osu2saber/sabertools.py\<close>
  the hand is busy after the first call and is released by the call at \<open>now = 2\<close>: the
  flag is cleared and the direction stays \<open>Down\<close>, as the claim says. Entered with the
  left hand marked busy by hand (\<open>sim_left_busy\<close>), the loop of \<open>src/sabertools.py\<close> keeps
  the hand busy at \<open>now = 2\<close>, and at \<open>now = 3\<close> releases it and turns its direction from
  \<open>Down\<close> to \<open>Up\<close>.
\<close>

theorem release_at_finish_time:
  "map_sum id (map on_arc \<circ> hands)
     (run_moves [(0, False, (LeftRedNote, RightBlueNote), [(1, (0, 2), MidCtr)]),
                 (2, False, (LeftRedNote, RightBlueNote), [])] simulator_init)
   = Inr [True, True]
   \<and> map_sum id (map on_arc \<circ> hands)
     (run_moves [(0, False, (LeftRedNote, RightBlueNote), [(1, (0, 2), MidCtr)]),
                 (3, False, (LeftRedNote, RightBlueNote), [])] simulator_init)
   = Inr [True, True]
   \<and> map_sum id coreography_hand_ids
     (run_moves_pkg [(0, False, (LeftRedNote, RightBlueNote), [(1, (0, 2), MidCtr)])] simulator_init)
   = Inr [1, -1]
   \<and> map_sum id (map direction \<circ> hands)
     (run_moves_pkg [(0, False, (LeftRedNote, RightBlueNote), [(1, (0, 2), MidCtr)])] simulator_init)
   = Inr [Down, Down]
   \<and> map_sum id coreography_hand_ids
     (run_moves_pkg [(0, False, (LeftRedNote, RightBlueNote), [(1, (0, 2), MidCtr)]),
                     (2, False, (LeftRedNote, RightBlueNote), [])] simulator_init)
   = Inr [-1, -1]
   \<and> map_sum id (map on_arc \<circ> hands)
     (run_moves_pkg [(0, False, (LeftRedNote, RightBlueNote), [(1, (0, 2), MidCtr)]),
                     (2, False, (LeftRedNote, RightBlueNote), [])] simulator_init)
   = Inr [False, True]
   \<and> map_sum id (map direction \<circ> hands)
     (run_moves_pkg [(0, False, (LeftRedNote, RightBlueNote), [(1, (0, 2), MidCtr)]),
                     (2, False, (LeftRedNote, RightBlueNote), [])] simulator_init)
   = Inr [Down, Down]
   \<and> map_sum id coreography_hand_ids
     (move_to 2 False (LeftRedNote, RightBlueNote) [] sim_left_busy) = Inr [7, -1]
   \<and> map_sum id coreography_hand_ids
     (move_to 3 False (LeftRedNote, RightBlueNote) [] sim_left_busy) = Inr [-1, -1]
   \<and> map direction (hands sim_left_busy) = [Down, Down]
   \<and> map_sum id (map direction \<circ> hands)
     (move_to 3 False (LeftRedNote, RightBlueNote) [] sim_left_busy) = Inr [Up, Down]
   \<and> map_sum id (map on_arc \<circ> hands)
     (move_to 3 False (LeftRedNote, RightBlueNote) [] sim_left_busy) = Inr [False, True]"
  by (simp add: sim_eval sim_eval_pkg sim_left_busy_def arc_record_def)

section \<open>Identities in the second copy\<close>

text \<open>
  \<open>move_to\<close> of \<open>src/osu2saber/sabertools.py\<close> skips a point whose identity is already in
  \<open>coreography_ids\<close>: in single-hand mode a call keeps the list free of duplicates. In
  both-hands mode it records \<open>beat_id\<close> for the left and \<open>beat_id + 1\<close> for the right hand,
  and the identities \<open>5\<close> and \<open>4\<close>, fed in this order, leave \<open>5\<close> recorded twice.
\<close>

lemma free_hand_pkg_ids:
  "free_hand_pkg now h s = Inr s' \<Longrightarrow> coreography_ids s' = coreography_ids s"
  by (auto simp: free_hand_pkg_def Let_def split: sum.splits option.splits if_splits)

lemma free_hands_pkg_ids:
  "free_hands_pkg now s = Inr s' \<Longrightarrow> coreography_ids s' = coreography_ids s"
  by (auto simp: free_hands_pkg_def split: sum.splits dest!: free_hand_pkg_ids)

lemma assign_hand_pkg_single_ids:
  "assign_hand_pkg now False poa h st = Inr st'
   \<Longrightarrow> coreography_ids (fst st') = coreography_ids (fst st) @ [fst poa]"
  by (auto simp: assign_hand_pkg_def Let_def split: sum.splits if_splits)

lemma move_loop_pkg_single_distinct:
  "distinct (coreography_ids (fst sm)) \<Longrightarrow> move_loop_pkg now False pref poas sm = Inr sm'
   \<Longrightarrow> distinct (coreography_ids (fst sm'))"
proof (induction poas arbitrary: sm)
  case Nil
  then show ?case by simp
next
  case (Cons poa rest)
  consider (skip) "move_loop_pkg now False pref (poa # rest) sm = move_loop_pkg now False pref rest sm"
    | (assign) h st where "fst poa \<notin> set (coreography_ids (fst sm))"
        "assign_hand_pkg now False poa h (fst sm, True, Any) = Inr st"
        "move_loop_pkg now False pref (poa # rest) sm =
           move_loop_pkg now False pref rest (fst st, if fst (snd st) then snd sm + 1 else snd sm)"
    using Cons.prems(2)
    by (auto split: if_splits sum.splits)
  then show ?case
  proof cases
    case skip
    with Cons show ?thesis by simp
  next
    case assign
    from assign_hand_pkg_single_ids[OF assign(2)] assign(1) Cons.prems(1)
    have "distinct (coreography_ids (fst st))" by simp
    then have "distinct (coreography_ids
        (fst (fst st, if fst (snd st) then snd sm + 1 else snd sm)))" by simp
    from Cons.IH[OF this] Cons.prems(2) assign(3) show ?thesis by simp
  qed
qed

lemma move_to_pkg_single_distinct:
  assumes "distinct (coreography_ids s)"
    and "move_to_pkg now False pref poas s = Inr sm"
  shows "distinct (coreography_ids (fst sm))"
proof -
  from assms(2) obtain s1 where a: "free_hands_pkg now s = Inr s1"
    and b: "move_loop_pkg now False pref (sorted_poas poas) (s1, 0) = Inr sm"
    by (auto simp: move_to_pkg_def split: sum.splits)
  from free_hands_pkg_ids[OF a] assms(1) have "distinct (coreography_ids (fst (s1, 0::int)))"
    by simp
  from move_loop_pkg_single_distinct[OF this b] show ?thesis .
qed

lemma both_hands_identities_collide_pkg:
  "map_sum id coreography_ids
     (run_moves_pkg [(0, True, (LeftRedNote, RightBlueNote), [(5, (0, 0), MidCtr)]),
                     (10, True, (LeftRedNote, RightBlueNote), [(4, (10, 10), MidCtr)])]
        simulator_init)
   = Inr [5, 6, 4, 5]"
  by (simp add: sim_eval_pkg)

section \<open>One record for each hand, one hand for each identity\<close>

text \<open>
  Claim C1 at the inputs where the code leaves it, each a run on a fresh simulator.
  A both-hands call with the single point \<open>7\<close>: \<open>move_to\<close> of \<open>src/sabertools.py\<close> records
  the identity twice and keeps one record, the right hand's, under it; the copy in
  \<open>src/osu2saber/sabertools.py\<close> keeps a record for each hand, under \<open>7\<close> and \<open>8\<close>.
  The arc \<open>7\<close>, from beat 0 to beat 2, fed at its start and again at its finish in
  single-hand mode: \<open>src/sabertools.py\<close> processes it both times and records it twice, the
  copy records it once.
  The arc \<open>1\<close>, from beat 0 to beat 4, and then the note \<open>2\<close> at beat 1, in single-hand
  mode: \<open>src/sabertools.py\<close> gives both to the left hand, which at beat 1 serves two
  records; the copy has marked the left hand busy and gives the note to the right hand.
\<close>

theorem identity_and_hand_exclusion:
  "map_sum id coreography_ids
     (run_moves [(0, True, (LeftRedNote, RightBlueNote), [(7, (0, 0), MidCtr)])] simulator_init)
   = Inr [7, 7]
   \<and> map_sum id (map (\<lambda>e. (fst e, obstacle_type (snd e))) \<circ> coreography_contents)
     (run_moves [(0, True, (LeftRedNote, RightBlueNote), [(7, (0, 0), MidCtr)])] simulator_init)
   = Inr [(7, RightBlueNote)]
   \<and> map_sum id (map (\<lambda>e. (fst e, obstacle_type (snd e))) \<circ> coreography_contents)
     (run_moves_pkg [(0, True, (LeftRedNote, RightBlueNote), [(7, (0, 0), MidCtr)])] simulator_init)
   = Inr [(7, LeftRedNote), (8, RightBlueNote)]
   \<and> map_sum id coreography_ids
     (run_moves [(0, False, (LeftRedNote, RightBlueNote), [(7, (0, 2), MidCtr)]),
                 (2, False, (LeftRedNote, RightBlueNote), [(7, (0, 2), MidCtr)])] simulator_init)
   = Inr [7, 7]
   \<and> map_sum id coreography_ids
     (run_moves_pkg [(0, False, (LeftRedNote, RightBlueNote), [(7, (0, 2), MidCtr)]),
                     (2, False, (LeftRedNote, RightBlueNote), [(7, (0, 2), MidCtr)])] simulator_init)
   = Inr [7]
   \<and> map_sum id (map (\<lambda>e. (fst e, beat_start (snd e), beat_finish (snd e), obstacle_type (snd e)))
                  \<circ> coreography_contents)
     (run_moves [(0, False, (LeftRedNote, RightBlueNote), [(1, (0, 4), MidLft)]),
                 (1, False, (LeftRedNote, RightBlueNote),
                    [(1, (0, 4), MidLft), (2, (1, 1), MidRgt)])] simulator_init)
   = Inr [(1, 0, 4, LeftRedNote), (2, 1, 1, LeftRedNote)]
   \<and> map_sum id (map (\<lambda>e. (fst e, beat_start (snd e), beat_finish (snd e), obstacle_type (snd e)))
                  \<circ> coreography_contents)
     (run_moves_pkg [(0, False, (LeftRedNote, RightBlueNote), [(1, (0, 4), MidLft)]),
                     (1, False, (LeftRedNote, RightBlueNote),
                        [(1, (0, 4), MidLft), (2, (1, 1), MidRgt)])] simulator_init)
   = Inr [(1, 0, 4, LeftRedNote), (2, 1, 1, RightBlueNote)]
   \<and> map_sum id coreography_hand_ids
     (run_moves_pkg [(0, False, (LeftRedNote, RightBlueNote), [(1, (0, 4), MidLft)]),
                     (1, False, (LeftRedNote, RightBlueNote),
                        [(1, (0, 4), MidLft), (2, (1, 1), MidRgt)])] simulator_init)
   = Inr [1, 2]"
  by (simp add: sim_eval sim_eval_pkg)

section \<open>More points than hands\<close>

text \<open>
  When no hand is available the loop leaves the simulator as it is and does not raise:
  \<open>src/sabertools.py\<close> returns at the first due point, \<open>src/osu2saber/sabertools.py\<close>
  skips every point.
\<close>

lemma move_loop_all_busy:
  "available_hands now s = Inr [] \<Longrightarrow> move_loop now both pref poas s = Inr s"
  by (induction poas) simp_all

lemma available_from_pkg_all_busy:
  "-1 \<notin> set xs \<Longrightarrow> available_from_pkg h xs = Inr []"
  by (induction xs arbitrary: h) auto

lemma move_loop_pkg_all_busy:
  "-1 \<notin> set (coreography_hand_ids (fst sm)) \<Longrightarrow> move_loop_pkg now both pref poas sm = Inr sm"
  by (induction poas) (auto simp: available_from_pkg_all_busy)

text \<open>
  Claim C4 at the input where the code leaves it: three points arrive at beat 0 on a
  fresh simulator, in single-hand mode. \<open>move_to\<close> of \<open>src/sabertools.py\<close> records all
  three, each served by the left hand, and drops none; entered with both hands marked
  busy, it returns at the first point with the state unchanged. \<open>move_to\<close> of
  \<open>src/osu2saber/sabertools.py\<close> gives the first point to the left hand, the second to the
  right hand and drops the third, as the claim says.
\<close>

theorem simultaneous_points_capacity:
  "map_sum id coreography_ids
     (move_to 0 False (LeftRedNote, RightBlueNote)
        [(1, (0, 0), MidLft), (2, (0, 0), MidCtr), (3, (0, 0), MidRgt)] simulator_init)
   = Inr [1, 2, 3]
   \<and> map_sum id (map (obstacle_type \<circ> snd) \<circ> coreography_contents)
     (move_to 0 False (LeftRedNote, RightBlueNote)
        [(1, (0, 0), MidLft), (2, (0, 0), MidCtr), (3, (0, 0), MidRgt)] simulator_init)
   = Inr [LeftRedNote, LeftRedNote, LeftRedNote]
   \<and> move_to 0 False (LeftRedNote, RightBlueNote)
        [(1, (0, 0), MidLft), (2, (0, 0), MidCtr), (3, (0, 0), MidRgt)] sim_both_busy
   = Inr sim_both_busy
   \<and> map_sum id (coreography_ids \<circ> fst)
     (move_to_pkg 0 False (LeftRedNote, RightBlueNote)
        [(1, (0, 0), MidLft), (2, (0, 0), MidCtr), (3, (0, 0), MidRgt)] simulator_init)
   = Inr [1, 2]
   \<and> map_sum id (map (obstacle_type \<circ> snd) \<circ> coreography_contents \<circ> fst)
     (move_to_pkg 0 False (LeftRedNote, RightBlueNote)
        [(1, (0, 0), MidLft), (2, (0, 0), MidCtr), (3, (0, 0), MidRgt)] simulator_init)
   = Inr [LeftRedNote, RightBlueNote]"
  by (simp add: sim_eval sim_eval_pkg sim_both_busy_def arc_record_def)

end
